theory Spec2Isabelle
  imports Complex_Main "HOL-Library.Char_ord" "HOL-Library.List_Lexorder"
begin

section \<open>Orders dashboards: data preparation and aggregation\<close>

text \<open>
  The repository holds three dashboards (\<^verbatim>\<open>main.py\<close>, \<^verbatim>\<open>sample1.py\<close>,
  \<^verbatim>\<open>Sample02.py\<close>) over one orders table. Each loads the table, derives three
  columns, filters it by categorical selections and aggregates it for the charts. The
  definitions below follow the three files statement by statement. The pandas primitives
  they call (\<^verbatim>\<open>to_datetime\<close>, \<^verbatim>\<open>cut\<close>, \<^verbatim>\<open>isin\<close>, \<^verbatim>\<open>groupby\<close>, \<^verbatim>\<open>fillna\<close>)
  are modelled by their documented behaviour on the column values; a missing value
  (NaN, NaT, None) is \<open>None\<close>.
\<close>

subsection \<open>Calendar dates\<close>

text \<open>
  Every format used by the loaders is date-only, so a parsed timestamp is a calendar date
  at midnight. \<open>toordinal\<close> is the proleptic Gregorian day number, as Python's
  \<^verbatim>\<open>date.toordinal\<close> computes it; a difference of two midnights in days is the
  difference of the day numbers.
\<close>

record date =
  year :: int
  month :: int
  day :: int

definition is_leap :: "int \<Rightarrow> bool" where
  "is_leap y = (y mod 4 = 0 \<and> (y mod 100 \<noteq> 0 \<or> y mod 400 = 0))"

definition days_in_month :: "int \<Rightarrow> int \<Rightarrow> int" where
  "days_in_month y m =
     (if m = 2 then (if is_leap y then 29 else 28)
      else if m = 4 \<or> m = 6 \<or> m = 9 \<or> m = 11 then 30 else 31)"

definition days_before_year :: "int \<Rightarrow> int" where
  "days_before_year y = (y - 1) * 365 + (y - 1) div 4 - (y - 1) div 100 + (y - 1) div 400"

definition days_before_month :: "int \<Rightarrow> int \<Rightarrow> int" where
  "days_before_month y m = sum_list (map (days_in_month y) [1 .. m - 1])"

definition toordinal :: "date \<Rightarrow> int" where
  "toordinal d = days_before_year (year d) + days_before_month (year d) (month d) + day d"

definition calendar_date :: "date \<Rightarrow> bool" where
  "calendar_date d =
     (1 \<le> month d \<and> month d \<le> 12 \<and> 1 \<le> day d \<and> day d \<le> days_in_month (year d) (month d))"

text \<open>Python's \<^verbatim>\<open>datetime\<close> takes the years 1 to 9999.\<close>

definition valid_date :: "date \<Rightarrow> bool" where
  "valid_date d = (1 \<le> year d \<and> year d \<le> 9999 \<and> calendar_date d)"

text \<open>
  The day after a date, in the terms of the calendar alone. It says what a number of days
  from one date to another is: \<open>n\<close> days after \<open>d\<close> is \<open>(next_day ^^ n) d\<close>.
\<close>

definition next_day :: "date \<Rightarrow> date" where
  "next_day d =
     (if day d < days_in_month (year d) (month d)
      then \<lparr>year = year d, month = month d, day = day d + 1\<rparr>
      else if month d < 12 then \<lparr>year = year d, month = month d + 1, day = 1\<rparr>
      else \<lparr>year = year d + 1, month = 1, day = 1\<rparr>)"

text \<open>
  A pandas timestamp is a signed 64-bit count of nanoseconds since 1970-01-01, so the dates
  it can hold at midnight run from 1677-09-22 to 2262-04-11; a date outside that range is
  out of bounds and \<^verbatim>\<open>errors='coerce'\<close> turns it into NaT.
\<close>

definition in_bounds :: "date \<Rightarrow> bool" where
  "in_bounds d =
     (toordinal \<lparr>year = 1677, month = 9, day = 22\<rparr> \<le> toordinal d \<and>
      toordinal d \<le> toordinal \<lparr>year = 2262, month = 4, day = 11\<rparr>)"

subsection \<open>Customer age\<close>

text \<open>
  Python compares the pairs \<^verbatim>\<open>(today.month, today.day) < (born.month, born.day)\<close>
  lexicographically, and the Boolean is subtracted as 0 or 1.
\<close>

definition tuple_less :: "int \<times> int \<Rightarrow> int \<times> int \<Rightarrow> bool" where
  "tuple_less p q = (fst p < fst q \<or> (fst p = fst q \<and> snd p < snd q))"

definition bool_int :: "bool \<Rightarrow> int" where
  "bool_int b = (if b then 1 else 0)"

text \<open>\<^verbatim>\<open>calculate_age\<close> of \<^verbatim>\<open>main.py\<close> and \<^verbatim>\<open>sample1.py\<close> (the two are the same text).
  The \<^verbatim>\<open>try\<close> around the arithmetic guards integer operations on a timestamp, which
  do not raise, so its \<^verbatim>\<open>except\<close> branch has no input.\<close>

definition calculate_age :: "date \<Rightarrow> date option \<Rightarrow> int option" where
  "calculate_age today born =
     (case born of
        None \<Rightarrow> None
      | Some b \<Rightarrow>
          Some (year today - year b
                - bool_int (tuple_less (month today, day today) (month b, day b))))"

text \<open>The \<^verbatim>\<open>customer_age\<close> lambda of \<^verbatim>\<open>Sample02.py\<close>:
  \<^verbatim>\<open>datetime.now().year - dob.year if pd.notnull(dob) else None\<close>.\<close>

definition customer_age_sample02 :: "date \<Rightarrow> date option \<Rightarrow> int option" where
  "customer_age_sample02 today dob =
     (case dob of None \<Rightarrow> None | Some b \<Rightarrow> Some (year today - year b))"

subsection \<open>Age buckets\<close>

text \<open>
  \<^verbatim>\<open>pd.cut(x, bins, labels, right=False)\<close>: the bin of \<open>x\<close> is found by
  \<^verbatim>\<open>bins.searchsorted(x, side='right')\<close>, the number of edges that are at most \<open>x\<close>
  in the increasing list of edges. Index 0 (below the first edge) and index
  \<^verbatim>\<open>len(bins)\<close> (at or above the last edge) give no bin; any other index \<open>i\<close> gives
  \<^verbatim>\<open>labels[i - 1]\<close>.
\<close>

definition searchsorted_right :: "int list \<Rightarrow> int \<Rightarrow> nat" where
  "searchsorted_right bins x = length (takeWhile (\<lambda>b. b \<le> x) bins)"

definition pd_cut :: "int list \<Rightarrow> string list \<Rightarrow> int \<Rightarrow> string option" where
  "pd_cut bins labels x =
     (let ids = searchsorted_right bins x
      in if ids = 0 \<or> ids = length bins then None else Some (labels ! (ids - 1)))"

definition fillna :: "'a \<Rightarrow> 'a option \<Rightarrow> 'a" where
  "fillna v x = (case x of None \<Rightarrow> v | Some y \<Rightarrow> y)"

definition age_bins :: "int list" where
  "age_bins = [0, 30, 45, 60, 100]"

definition age_labels :: "string list" where
  "age_labels = [''18-30'', ''31-45'', ''46-60'', ''60+'']"

text \<open>The \<^verbatim>\<open>age_group\<close> column of \<^verbatim>\<open>main.py\<close> and \<^verbatim>\<open>sample1.py\<close>.\<close>

definition age_group :: "int option \<Rightarrow> string option" where
  "age_group customer_age =
     pd_cut ([-1] @ age_bins) ([''Unknown''] @ age_labels) (fillna (-1) customer_age)"

subsection \<open>Parsing dates with a format\<close>

text \<open>
  \<^verbatim>\<open>pd.to_datetime(col, format=..., errors='coerce')\<close> matches the whole cell against
  the format. The two formats of the loaders are three numeric fields separated by
  \<^verbatim>\<open>-\<close>. The directives accept: \<^verbatim>\<open>%d\<close> one or two digits with value 1 to 31, or a
  space and a digit 1 to 9; \<^verbatim>\<open>%m\<close> one or two digits with value 1 to 12; \<^verbatim>\<open>%Y\<close>
  exactly four digits. A cell that does not match, names a day the month does not have, or
  is out of the timestamp bounds becomes NaT.
\<close>

definition digit_val :: "char \<Rightarrow> int option" where
  "digit_val c =
     map_of [(CHR ''0'', 0), (CHR ''1'', 1), (CHR ''2'', 2), (CHR ''3'', 3), (CHR ''4'', 4),
             (CHR ''5'', 5), (CHR ''6'', 6), (CHR ''7'', 7), (CHR ''8'', 8), (CHR ''9'', 9)] c"

fun split_on :: "char \<Rightarrow> string \<Rightarrow> string list" where
  "split_on sep [] = [[]]"
| "split_on sep (c # cs) =
     (if c = sep then [] # split_on sep cs
      else (case split_on sep cs of [] \<Rightarrow> [[c]] | p # ps \<Rightarrow> (c # p) # ps))"

fun digits_val :: "string \<Rightarrow> int option" where
  "digits_val [] = None"
| "digits_val [c] = digit_val c"
| "digits_val cs =
     (case (digits_val (butlast cs), digit_val (last cs)) of
        (Some hi, Some lo) \<Rightarrow> Some (10 * hi + lo)
      | _ \<Rightarrow> None)"

definition in_range :: "int \<Rightarrow> int \<Rightarrow> int option \<Rightarrow> int option" where
  "in_range lo hi v = (case v of None \<Rightarrow> None | Some n \<Rightarrow> if lo \<le> n \<and> n \<le> hi then Some n else None)"

definition match_d :: "string \<Rightarrow> int option" where
  "match_d s =
     (if length s = 2 \<and> hd s = CHR '' '' then in_range 1 9 (digits_val (tl s))
      else if length s = 1 \<or> length s = 2 then in_range 1 31 (digits_val s)
      else None)"

definition match_m :: "string \<Rightarrow> int option" where
  "match_m s = (if length s = 1 \<or> length s = 2 then in_range 1 12 (digits_val s) else None)"

definition match_Y :: "string \<Rightarrow> int option" where
  "match_Y s = (if length s = 4 then digits_val s else None)"

definition make_date :: "int option \<Rightarrow> int option \<Rightarrow> int option \<Rightarrow> date option" where
  "make_date y m d =
     (case (y, m, d) of
        (Some yy, Some mm, Some dd) \<Rightarrow>
          (let r = \<lparr>year = yy, month = mm, day = dd\<rparr>
           in if valid_date r \<and> in_bounds r then Some r else None)
      | _ \<Rightarrow> None)"

datatype date_format = DMY | YMD

text \<open>\<open>DMY\<close> is \<^verbatim>\<open>'%d-%m-%Y'\<close> and \<open>YMD\<close> is \<^verbatim>\<open>'%Y-%m-%d'\<close>.\<close>

definition strptime :: "date_format \<Rightarrow> string \<Rightarrow> date option" where
  "strptime fmt s =
     (case split_on CHR ''-'' s of
        [a, b, c] \<Rightarrow>
          (case fmt of
             DMY \<Rightarrow> make_date (match_Y c) (match_m b) (match_d a)
           | YMD \<Rightarrow> make_date (match_Y a) (match_m b) (match_d c))
      | _ \<Rightarrow> None)"

definition to_datetime :: "date_format \<Rightarrow> string option \<Rightarrow> date option" where
  "to_datetime fmt cell = (case cell of None \<Rightarrow> None | Some s \<Rightarrow> strptime fmt s)"

text \<open>
  Called on a column that already holds timestamps, \<^verbatim>\<open>pd.to_datetime\<close> returns the
  column as it is: the \<^verbatim>\<open>format\<close> argument only applies to text.
\<close>

definition to_datetime_parsed :: "date_format \<Rightarrow> date option \<Rightarrow> date option" where
  "to_datetime_parsed fmt d = d"

subsection \<open>The orders table\<close>

text \<open>
  \<open>csv_row\<close> is one row as \<^verbatim>\<open>pd.read_csv\<close> delivers it: date and categorical cells
  are text, the others numbers, and an empty cell is \<open>None\<close>. \<open>csv\<close> is the frame read:
  its header and its rows. A column that the header does not have gives \<open>None\<close> in
  every row. Reading the file can fail; the result of \<^verbatim>\<open>pd.read_csv\<close> is
  \<open>py_error + csv\<close>.

  \<^verbatim>\<open>pd.read_csv\<close> gives a column the type its cells allow: \<^verbatim>\<open>price\<close> is a column of
  numbers when every cell is a number, and a column of text as soon as one cell is not.
  The type \<open>'p\<close> of a \<^verbatim>\<open>price\<close> cell is therefore a parameter: \<open>rat\<close> for a numeric
  column, \<open>string\<close> for a column of text.
\<close>

record 'p csv_row =
  csv_orderDate :: "string option"
  csv_deliveryDate :: "string option"
  csv_itemID :: "int option"
  csv_color :: "string option"
  csv_size :: "string option"
  csv_manufacturerID :: "int option"
  csv_price :: "'p option"
  csv_dateOfBirth :: "string option"
  csv_state :: "string option"
  csv_returnShipment :: "int option"
  csv_creationDate :: "string option"

record 'p csv =
  columns :: "string list"
  rows :: "'p csv_row list"

datatype py_error =
  FileNotFoundError | PermissionError | ParserError | KeyError string | OverflowError

text \<open>
  A loaded row: the columns read, with the date columns parsed, and the three derived
  columns. The type of \<open>order_year_month\<close> and of \<open>delivery_delay\<close> differs between the
  files (\<^verbatim>\<open>sample1.py\<close> keeps a period and stores text in the delay column), so both are
  parameters of the record, as is the type of the \<^verbatim>\<open>price\<close> cells.
\<close>

record ('ym, 'delay, 'p) order =
  orderDate :: "date option"
  deliveryDate :: "date option"
  itemID :: "int option"
  color :: "string option"
  size_col :: "string option"
  manufacturerID :: "int option"
  price :: "'p option"
  dateOfBirth :: "date option"
  state :: "string option"
  returnShipment :: "int option"
  creationDate :: "date option"
  order_year_month :: 'ym
  delivery_delay :: 'delay
  customer_age :: "int option"

text \<open>\<^verbatim>\<open>.dt.to_period('M')\<close> keeps year and month; \<^verbatim>\<open>.astype(str)\<close> prints a period as
  \<^verbatim>\<open>YYYY-MM\<close> and a missing one as \<^verbatim>\<open>NaT\<close>.\<close>

definition to_period_M :: "date option \<Rightarrow> (int \<times> int) option" where
  "to_period_M d = map_option (\<lambda>x. (year x, month x)) d"

definition digit_char :: "int \<Rightarrow> char" where
  "digit_char n = ''0123456789'' ! nat (n mod 10)"

definition period_str :: "(int \<times> int) option \<Rightarrow> string" where
  "period_str p =
     (case p of
        None \<Rightarrow> ''NaT''
      | Some (y, m) \<Rightarrow>
          [digit_char (y div 1000), digit_char (y div 100), digit_char (y div 10), digit_char y]
          @ ''-'' @ [digit_char (m div 10), digit_char m])"

text \<open>
  \<^verbatim>\<open>(df['deliveryDate'] - df['orderDate']).dt.days\<close>: NaT on either side gives a missing
  difference. The difference of two timestamps is a signed 64-bit count of nanoseconds;
  where it does not fit, the subtraction raises \<^verbatim>\<open>OverflowError\<close>. \<^verbatim>\<open>.dt.days\<close> is
  the number of whole days in it.
\<close>

definition ns_per_day :: int where
  "ns_per_day = 86400000000000"

definition days_between :: "date option \<Rightarrow> date option \<Rightarrow> py_error + int option" where
  "days_between delivery order_d =
     (case (delivery, order_d) of
        (Some a, Some b) \<Rightarrow>
          (let ns = (toordinal a - toordinal b) * ns_per_day
           in if - (2 ^ 63) < ns \<and> ns < 2 ^ 63 then Inr (Some (ns div ns_per_day))
              else Inl OverflowError)
      | _ \<Rightarrow> Inr None)"

text \<open>
  The largest number of whole days that fits, and the test that two dates are further apart
  than that.
\<close>

definition timedelta_max_days :: int where
  "timedelta_max_days = 106751"

definition far_apart :: "date option \<Rightarrow> date option \<Rightarrow> bool" where
  "far_apart x y =
     (case (x, y) of
        (Some a, Some b) \<Rightarrow> timedelta_max_days < \<bar>toordinal a - toordinal b\<bar>
      | _ \<Rightarrow> False)"

text \<open>
  A column is computed for all rows at once: the statement that computes it raises if the
  computation raises for any row. \<open>collect\<close> gives the rows if none raised.
\<close>

fun collect :: "(py_error + 'a) list \<Rightarrow> py_error + 'a list" where
  "collect [] = Inr []"
| "collect (x # xs) =
     (case x of
        Inl e \<Rightarrow> Inl e
      | Inr v \<Rightarrow> (case collect xs of Inl e \<Rightarrow> Inl e | Inr vs \<Rightarrow> Inr (v # vs)))"

text \<open>\<^verbatim>\<open>df.fillna({'color': 'Unknown', ...})\<close> fills a column that the frame has and
  skips a key that is not a column.\<close>

definition fill_unknown :: "string list \<Rightarrow> string \<Rightarrow> string option \<Rightarrow> string option" where
  "fill_unknown cols c v = (if c \<in> set cols then Some (fillna ''Unknown'' v) else v)"

text \<open>\<^verbatim>\<open>df[c]\<close> raises \<^verbatim>\<open>KeyError\<close> for a column that the frame does not have. The
  loaders touch the four date columns in this order.\<close>

definition date_columns :: "string list" where
  "date_columns = [''orderDate'', ''deliveryDate'', ''dateOfBirth'', ''creationDate'']"

definition first_missing :: "string list \<Rightarrow> string list \<Rightarrow> string option" where
  "first_missing cols needed = find (\<lambda>c. c \<notin> set cols) needed"

subsection \<open>The loader of main.py\<close>

text \<open>
  \<open>parse_dob\<close> stands for the parse of \<^verbatim>\<open>dateOfBirth\<close>, which is called without a
  format; \<open>today\<close> is the date \<^verbatim>\<open>datetime.now()\<close> returns during the load.
\<close>

definition load_row_main ::
  "(string \<Rightarrow> date option) \<Rightarrow> date \<Rightarrow> string list \<Rightarrow> 'p csv_row
     \<Rightarrow> py_error + (string, int option, 'p) order" where
  "load_row_main parse_dob today cols r =
     (let od = to_datetime DMY (csv_orderDate r);
          dd = to_datetime YMD (csv_deliveryDate r);
          dob = Option.bind (csv_dateOfBirth r) parse_dob;
          cd = to_datetime DMY (csv_creationDate r)
      in case days_between dd od of
           Inl e \<Rightarrow> Inl e
         | Inr delay \<Rightarrow>
             Inr \<lparr>orderDate = od, deliveryDate = dd, itemID = csv_itemID r,
                  color = fill_unknown cols ''color'' (csv_color r),
                  size_col = fill_unknown cols ''size'' (csv_size r),
                  manufacturerID = csv_manufacturerID r, price = csv_price r,
                  dateOfBirth = dob,
                  state = fill_unknown cols ''state'' (csv_state r),
                  returnShipment = csv_returnShipment r, creationDate = cd,
                  order_year_month = period_str (to_period_M od),
                  delivery_delay = delay,
                  customer_age = calculate_age today dob\<rparr>)"

text \<open>The body of the \<^verbatim>\<open>try\<close> block: any exception leaves it, be it of the read, of
  the access to a date column or of the date subtraction.\<close>

definition load_data_try ::
  "(string \<Rightarrow> date option) \<Rightarrow> date \<Rightarrow> py_error + 'p csv
     \<Rightarrow> py_error + (string, int option, 'p) order list" where
  "load_data_try parse_dob today file =
     (case file of
        Inl e \<Rightarrow> Inl e
      | Inr df \<Rightarrow>
          (case first_missing (columns df) date_columns of
             Some c \<Rightarrow> Inl (KeyError c)
           | None \<Rightarrow> collect (map (load_row_main parse_dob today (columns df)) (rows df))))"

text \<open>\<^verbatim>\<open>load_data\<close> of \<^verbatim>\<open>main.py\<close>: the \<^verbatim>\<open>except Exception\<close> branch shows the error
  with \<^verbatim>\<open>st.error\<close> and returns \<^verbatim>\<open>None\<close>. The result is the value returned and the
  messages shown.\<close>

datatype st_element = St_error py_error

definition load_data_main ::
  "(string \<Rightarrow> date option) \<Rightarrow> date \<Rightarrow> py_error + 'p csv
     \<Rightarrow> (string, int option, 'p) order list option \<times> st_element list" where
  "load_data_main parse_dob today file =
     (case load_data_try parse_dob today file of
        Inl e \<Rightarrow> (None, [St_error e])
      | Inr df \<Rightarrow> (Some df, []))"

subsection \<open>The loader of Sample02.py\<close>

definition load_row_sample02 ::
  "(string \<Rightarrow> date option) \<Rightarrow> date \<Rightarrow> string list \<Rightarrow> 'p csv_row
     \<Rightarrow> py_error + (string, int option, 'p) order" where
  "load_row_sample02 parse_dob today cols r =
     (let od = to_datetime DMY (csv_orderDate r);
          dd = to_datetime YMD (csv_deliveryDate r);
          dob = Option.bind (csv_dateOfBirth r) parse_dob;
          cd = to_datetime DMY (csv_creationDate r)
      in case days_between dd od of
           Inl e \<Rightarrow> Inl e
         | Inr delay \<Rightarrow>
             Inr \<lparr>orderDate = od, deliveryDate = dd, itemID = csv_itemID r,
                  color = fill_unknown cols ''color'' (csv_color r),
                  size_col = fill_unknown cols ''size'' (csv_size r),
                  manufacturerID = csv_manufacturerID r, price = csv_price r,
                  dateOfBirth = dob,
                  state = fill_unknown cols ''state'' (csv_state r),
                  returnShipment = csv_returnShipment r, creationDate = cd,
                  order_year_month = period_str (to_period_M od),
                  delivery_delay = delay,
                  customer_age = customer_age_sample02 today dob\<rparr>)"

text \<open>No \<^verbatim>\<open>try\<close> here: an exception leaves \<^verbatim>\<open>load_data\<close>.\<close>

definition load_data_sample02 ::
  "(string \<Rightarrow> date option) \<Rightarrow> date \<Rightarrow> py_error + 'p csv
     \<Rightarrow> py_error + (string, int option, 'p) order list" where
  "load_data_sample02 parse_dob today file =
     (case file of
        Inl e \<Rightarrow> Inl e
      | Inr df \<Rightarrow>
          (case first_missing (columns df) date_columns of
             Some c \<Rightarrow> Inl (KeyError c)
           | None \<Rightarrow> collect (map (load_row_sample02 parse_dob today (columns df)) (rows df))))"

subsection \<open>The loader of sample1.py\<close>

text \<open>
  The loop parses every date column with \<^verbatim>\<open>'%d-%m-%Y'\<close> and stores the result in the
  column; for \<^verbatim>\<open>deliveryDate\<close> it then calls \<^verbatim>\<open>pd.to_datetime\<close> with
  \<^verbatim>\<open>'%Y-%m-%d'\<close> on the column just stored, which holds timestamps by then. The delay
  column has its missing values replaced by the text \<^verbatim>\<open>'Unknown'\<close>, so its cells are
  numbers or text (\<open>None\<close> would be a cell still missing).
\<close>

datatype obj = Number int | Text string

definition load_row_sample1 ::
  "date \<Rightarrow> 'p csv_row \<Rightarrow> py_error + ((int \<times> int) option, obj option, 'p) order" where
  "load_row_sample1 today r =
     (let od = to_datetime DMY (csv_orderDate r);
          dd = to_datetime_parsed YMD (to_datetime DMY (csv_deliveryDate r));
          dob = to_datetime DMY (csv_dateOfBirth r);
          cd = to_datetime DMY (csv_creationDate r)
      in case days_between dd od of
           Inl e \<Rightarrow> Inl e
         | Inr delay \<Rightarrow>
             Inr \<lparr>orderDate = od, deliveryDate = dd, itemID = csv_itemID r,
                  color = csv_color r, size_col = csv_size r,
                  manufacturerID = csv_manufacturerID r, price = csv_price r,
                  dateOfBirth = dob, state = csv_state r,
                  returnShipment = csv_returnShipment r, creationDate = cd,
                  order_year_month = to_period_M od,
                  delivery_delay = Some (fillna (Text ''Unknown'') (map_option Number delay)),
                  customer_age = calculate_age today dob\<rparr>)"

definition load_data_sample1 ::
  "date \<Rightarrow> py_error + 'p csv
     \<Rightarrow> py_error + ((int \<times> int) option, obj option, 'p) order list" where
  "load_data_sample1 today file =
     (case file of
        Inl e \<Rightarrow> Inl e
      | Inr df \<Rightarrow>
          (case first_missing (columns df) date_columns of
             Some c \<Rightarrow> Inl (KeyError c)
           | None \<Rightarrow> collect (map (load_row_sample1 today) (rows df))))"

subsection \<open>Filtering\<close>

text \<open>
  \<^verbatim>\<open>col.isin(values)\<close> is the column of membership tests, \<^verbatim>\<open>&\<close> combines two such
  columns row by row, and \<^verbatim>\<open>df[mask]\<close> keeps the rows whose mask entry is true, in
  order. The values selected in the sidebar are text, so a missing cell is in no selection.
\<close>

definition isin :: "'a list \<Rightarrow> 'a list \<Rightarrow> bool list" where
  "isin col vals = map (\<lambda>v. v \<in> set vals) col"

definition mask_and :: "bool list \<Rightarrow> bool list \<Rightarrow> bool list" where
  "mask_and m1 m2 = map (\<lambda>(a, b). a \<and> b) (zip m1 m2)"

definition boolean_index :: "'r list \<Rightarrow> bool list \<Rightarrow> 'r list" where
  "boolean_index df keep = map fst (filter snd (zip df keep))"

text \<open>\<^verbatim>\<open>df_filtered\<close> of \<^verbatim>\<open>main.py\<close> and \<^verbatim>\<open>Sample02.py\<close>.\<close>

definition df_filtered ::
  "(string, 'd, 'p) order list \<Rightarrow> string list \<Rightarrow> string list \<Rightarrow> string list \<Rightarrow> string list
     \<Rightarrow> (string, 'd, 'p) order list" where
  "df_filtered df selected_states selected_months selected_colors selected_sizes =
     boolean_index df
       (mask_and
          (mask_and
             (mask_and (isin (map state df) (map Some selected_states))
                       (isin (map order_year_month df) selected_months))
             (isin (map color df) (map Some selected_colors)))
          (isin (map size_col df) (map Some selected_sizes)))"

subsection \<open>Grouped aggregation\<close>

text \<open>
  \<^verbatim>\<open>df.groupby(key)\<close> makes one group for each distinct key value that occurs, in
  increasing key order; rows whose key is missing are in no group. \<^verbatim>\<open>mean\<close> and
  \<^verbatim>\<open>sum\<close> skip missing values: the mean of no value is missing, the sum of no value
  is 0. Numbers are exact rationals here.
\<close>

definition groupby :: "('r \<Rightarrow> 'k::linorder option) \<Rightarrow> 'r list \<Rightarrow> ('k \<times> 'r list) list" where
  "groupby key df =
     map (\<lambda>k. (k, filter (\<lambda>r. key r = Some k) df)) (sort (remdups (List.map_filter key df)))"

definition mean :: "rat option list \<Rightarrow> rat option" where
  "mean xs =
     (let vs = List.map_filter id xs
      in if vs = [] then None else Some (sum_list vs / of_nat (length vs)))"

definition sum_skipna :: "rat option list \<Rightarrow> rat" where
  "sum_skipna xs = sum_list (List.map_filter id xs)"

definition groupby_mean ::
  "('r \<Rightarrow> 'k::linorder option) \<Rightarrow> ('r \<Rightarrow> rat option) \<Rightarrow> 'r list \<Rightarrow> ('k \<times> rat option) list" where
  "groupby_mean key val df = map (\<lambda>(k, g). (k, mean (map val g))) (groupby key df)"

definition groupby_sum ::
  "('r \<Rightarrow> 'k::linorder option) \<Rightarrow> ('r \<Rightarrow> rat option) \<Rightarrow> 'r list \<Rightarrow> ('k \<times> rat) list" where
  "groupby_sum key val df = map (\<lambda>(k, g). (k, sum_skipna (map val g))) (groupby key df)"

definition groupby_size :: "('r \<Rightarrow> 'k::linorder option) \<Rightarrow> 'r list \<Rightarrow> ('k \<times> nat) list" where
  "groupby_size key df = map (\<lambda>(k, g). (k, length g)) (groupby key df)"

text \<open>\<^verbatim>\<open>df_filtered.groupby('state')['returnShipment'].mean() * 100\<close>.\<close>

definition return_rate_by_state :: "(string, 'd, 'p) order list \<Rightarrow> (string \<times> rat option) list" where
  "return_rate_by_state df =
     map (\<lambda>(k, m). (k, map_option (\<lambda>x. x * 100) m))
       (groupby_mean state (\<lambda>r. map_option of_int (returnShipment r)) df)"

text \<open>
  \<^verbatim>\<open>sort_values(ascending=False)\<close> and the ordering of \<^verbatim>\<open>value_counts()\<close> put the
  entries in decreasing order of value. The order among entries of equal value is pandas'
  choice; it is taken here as the order of a stable sort.
\<close>

definition sort_values_desc :: "('k \<times> 'v::{linorder, uminus}) list \<Rightarrow> ('k \<times> 'v) list" where
  "sort_values_desc xs = sort_key (\<lambda>(k, v). - v) xs"

text \<open>\<^verbatim>\<open>df_filtered.groupby('manufacturerID')['price'].sum().sort_values(ascending=False)\<close>.\<close>

definition manufacturer_revenue :: "(string, 'd, rat) order list \<Rightarrow> (int \<times> rat) list" where
  "manufacturer_revenue df = sort_values_desc (groupby_sum manufacturerID price df)"

text \<open>\<^verbatim>\<open>df_filtered['color'].value_counts()\<close>: the number of rows of each colour that
  occurs.\<close>

definition color_orders :: "(string, 'd, 'p) order list \<Rightarrow> (string \<times> int) list" where
  "color_orders df = sort_values_desc (map (\<lambda>(k, n). (k, int n)) (groupby_size color df))"

subsection \<open>Delivery performance\<close>

text \<open>
  \<^verbatim>\<open>df_filtered[df_filtered['delivery_delay'] > 0]\<close>: a comparison with a missing value is
  false. The rows kept are grouped by the month of their order date.
\<close>

definition gt0 :: "int option \<Rightarrow> bool" where
  "gt0 v = (case v of None \<Rightarrow> False | Some n \<Rightarrow> 0 < n)"

definition dt_month :: "date option \<Rightarrow> int option" where
  "dt_month d = map_option month d"

definition delay_rat :: "(string, int option, 'p) order \<Rightarrow> rat option" where
  "delay_rat r = map_option of_int (delivery_delay r)"

text \<open>\<^verbatim>\<open>delivery_performance\<close> of \<^verbatim>\<open>main.py\<close>.\<close>

definition delivery_performance ::
  "(string, int option, 'p) order list \<Rightarrow> (int \<times> rat option) list" where
  "delivery_performance df =
     groupby_mean (\<lambda>r. dt_month (orderDate r)) delay_rat
       (boolean_index df (map (\<lambda>r. gt0 (delivery_delay r)) df))"

text \<open>\<^verbatim>\<open>df_delays\<close> and \<^verbatim>\<open>delays\<close> of \<^verbatim>\<open>Sample02.py\<close>: with no row kept there is no
  chart (\<open>None\<close>), only a notice.\<close>

definition df_delays ::
  "(string, int option, 'p) order list \<Rightarrow> (string, int option, 'p) order list" where
  "df_delays df = boolean_index df (map (\<lambda>r. gt0 (delivery_delay r)) df)"

definition delays :: "(string, int option, 'p) order list \<Rightarrow> (int \<times> rat option) list option" where
  "delays df =
     (if df_delays df \<noteq> []
      then Some (groupby_mean (\<lambda>r. dt_month (orderDate r)) delay_rat (df_delays df))
      else None)"

subsection \<open>Age distribution\<close>

text \<open>
  \<^verbatim>\<open>df_filtered['age_group'].value_counts()\<close>: the column is categorical, so every
  category has an entry, with the number of rows in it; rows without a category are not
  counted.
\<close>

definition age_distribution :: "('ym, 'd, 'p) order list \<Rightarrow> (string \<times> int) list" where
  "age_distribution df =
     sort_values_desc
       (map (\<lambda>l. (l, int (length (filter (\<lambda>r. age_group (customer_age r) = Some l) df))))
          ([''Unknown''] @ age_labels))"

subsection \<open>Sample data\<close>

text \<open>Concrete inputs on which the results below are evaluated.\<close>

definition today0 :: date where
  "today0 = \<lparr>year = 2024, month = 6, day = 14\<rparr>"

definition all_columns :: "string list" where
  "all_columns =
     [''orderDate'', ''deliveryDate'', ''itemID'', ''color'', ''size'', ''manufacturerID'',
      ''price'', ''dateOfBirth'', ''state'', ''returnShipment'', ''creationDate'']"

definition sample_row :: "rat csv_row" where
  "sample_row =
     \<lparr>csv_orderDate = Some ''10-01-2024'', csv_deliveryDate = Some ''2024-01-15'',
      csv_itemID = Some 1, csv_color = None, csv_size = Some ''M'',
      csv_manufacturerID = Some 7, csv_price = Some 10,
      csv_dateOfBirth = Some ''15-06-2000'', csv_state = Some ''DE'',
      csv_returnShipment = Some 1, csv_creationDate = Some ''?''\<rparr>"

definition sample_order ::
  "string \<Rightarrow> int \<Rightarrow> int option \<Rightarrow> int option \<Rightarrow> (string, int option, rat) order" where
  "sample_order st flag delay age =
     \<lparr>orderDate = Some \<lparr>year = 2024, month = 1, day = 10\<rparr>, deliveryDate = None,
      itemID = Some 1, color = Some ''red'', size_col = Some ''M'', manufacturerID = Some 7,
      price = Some 10, dateOfBirth = None, state = Some st, returnShipment = Some flag,
      creationDate = None, order_year_month = ''2024-01'', delivery_delay = delay,
      customer_age = age\<rparr>"

text \<open>A row whose \<^verbatim>\<open>price\<close> cell is not a number, in a table whose \<^verbatim>\<open>price\<close> column
  is therefore text.\<close>

definition text_price_row :: "string csv_row" where
  "text_price_row =
     \<lparr>csv_orderDate = Some ''10-01-2024'', csv_deliveryDate = Some ''2024-01-15'',
      csv_itemID = Some 1, csv_color = None, csv_size = Some ''M'',
      csv_manufacturerID = Some 7, csv_price = Some ''abc'',
      csv_dateOfBirth = Some ''15-06-2000'', csv_state = Some ''DE'',
      csv_returnShipment = Some 1, csv_creationDate = Some ''?''\<rparr>"

text \<open>A row ordered on 10 January 1724 and delivered on 15 January 2024.\<close>

definition far_row :: "rat csv_row" where
  "far_row = sample_row\<lparr>csv_orderDate := Some ''10-01-1724''\<rparr>"

section \<open>Results\<close>

subsection \<open>Age buckets\<close>

lemmas age_group_defs =
  age_group_def pd_cut_def searchsorted_right_def fillna_def age_bins_def age_labels_def

lemma age_group_Some:
  "age_group (Some n) =
     (if n < -1 then None
      else if n < 0 then Some ''Unknown''
      else if n < 30 then Some ''18-30''
      else if n < 45 then Some ''31-45''
      else if n < 60 then Some ''46-60''
      else if n < 100 then Some ''60+''
      else None)"
  by (simp add: age_group_defs)

lemma age_group_None: "age_group None = Some ''Unknown''"
  by (simp add: age_group_defs)

text \<open>
  C1. The claim puts a boundary age into the lower bucket: 30 in \<^verbatim>\<open>18-30\<close>, 45 in
  \<^verbatim>\<open>31-45\<close>, 60 in \<^verbatim>\<open>46-60\<close>. The bins of the code are closed on the left
  (\<^verbatim>\<open>right=False\<close>), so the code puts each boundary age into the upper bucket: 30 gets the
  label \<^verbatim>\<open>31-45\<close>, 45 gets \<^verbatim>\<open>46-60\<close> and 60 gets \<^verbatim>\<open>60+\<close>. Age 61 gets \<^verbatim>\<open>60+\<close> and
  a missing age gets \<^verbatim>\<open>Unknown\<close>, as the claim says.
\<close>

theorem age_group_boundaries:
  "age_group (Some 30) = Some ''31-45'' \<and> age_group (Some 45) = Some ''46-60'' \<and>
   age_group (Some 60) = Some ''60+'' \<and> age_group (Some 61) = Some ''60+'' \<and>
   age_group None = Some ''Unknown''"
  by (simp add: age_group_Some age_group_None)

lemma age_distribution_drop:
  assumes "age_group (customer_age r) = None"
  shows "age_distribution (xs @ r # ys) = age_distribution (xs @ ys)"
  using assms by (simp add: age_distribution_def)

text \<open>
  C9. A record whose \<open>customer_age\<close> is 100 or more gets no age group: neither \<^verbatim>\<open>60+\<close>
  nor \<^verbatim>\<open>Unknown\<close>. The age distribution does not count it: the distribution of a table
  with such a record is the distribution of the table without it.
\<close>

theorem old_age_no_group:
  assumes "customer_age r = Some a" and "100 \<le> a"
  shows "age_group (customer_age r) = None \<and>
         age_group (customer_age r) \<noteq> Some ''60+'' \<and>
         age_group (customer_age r) \<noteq> Some ''Unknown'' \<and>
         age_distribution (xs @ r # ys) = age_distribution (xs @ ys)"
proof -
  have g: "age_group (customer_age r) = None"
    using assms by (simp add: age_group_Some)
  show ?thesis
    using g age_distribution_drop [OF g] by simp
qed

theorem old_age_no_group_witness:
  "customer_age (sample_order ''DE'' 1 None (Some 100)) = Some 100 \<and> (100::int) \<le> 100 \<and>
   age_group (customer_age (sample_order ''DE'' 1 None (Some 100))) = None \<and>
   age_distribution ([sample_order ''DE'' 1 None (Some 61)] @ sample_order ''DE'' 1 None (Some 100) # [])
     = age_distribution ([sample_order ''DE'' 1 None (Some 61)] @ [])"
proof -
  have h: "customer_age (sample_order ''DE'' 1 None (Some 100)) = Some 100"
    by (simp add: sample_order_def)
  show ?thesis
    using h old_age_no_group [OF h, of "[sample_order ''DE'' 1 None (Some 61)]" "[]"] by simp
qed

subsection \<open>Customer age\<close>

lemma calculate_age_null: "calculate_age today born = None \<longleftrightarrow> born = None"
  by (simp add: calculate_age_def split: option.splits)

lemma calculate_age_Some:
  "calculate_age today (Some b) =
     Some (if month today < month b \<or> (month today = month b \<and> day today < day b)
           then year today - year b - 1 else year today - year b)"
  by (simp add: calculate_age_def tuple_less_def bool_int_def)

lemma customer_age_sample02_null: "customer_age_sample02 today dob = None \<longleftrightarrow> dob = None"
  by (simp add: customer_age_sample02_def split: option.splits)

text \<open>
  C2. \<^verbatim>\<open>calculate_age\<close> of \<^verbatim>\<open>main.py\<close> and \<^verbatim>\<open>sample1.py\<close> does what the claim says
  (\<open>calculate_age_null\<close>, \<open>calculate_age_Some\<close>). The lambda of \<^verbatim>\<open>Sample02.py\<close> does not
  look at month and day: for a customer born on 2000-06-15 it gives 24 on 2024-06-14, the
  day before the birthday, where \<^verbatim>\<open>calculate_age\<close> gives 23.
\<close>

theorem customer_age_sample02_no_birthday:
  "customer_age_sample02 \<lparr>year = 2024, month = 6, day = 14\<rparr>
       (Some \<lparr>year = 2000, month = 6, day = 15\<rparr>) = Some 24 \<and>
   calculate_age \<lparr>year = 2024, month = 6, day = 14\<rparr>
       (Some \<lparr>year = 2000, month = 6, day = 15\<rparr>) = Some 23"
  by (simp add: customer_age_sample02_def calculate_age_Some)

subsection \<open>Filtering\<close>

lemma isin_map: "isin (map f df) vals = map (\<lambda>r. f r \<in> set vals) df"
  by (simp add: isin_def)

lemma mask_and_map: "mask_and (map p df) (map q df) = map (\<lambda>r. p r \<and> q r) df"
  by (induction df) (simp_all add: mask_and_def)

lemma boolean_index_map: "boolean_index df (map p df) = filter p df"
  by (induction df) (simp_all add: boolean_index_def)

lemma df_filtered_filter:
  "df_filtered df ss ms cs zs =
     filter (\<lambda>r. state r \<in> Some ` set ss \<and> order_year_month r \<in> set ms \<and>
                 color r \<in> Some ` set cs \<and> size_col r \<in> Some ` set zs) df"
  by (simp add: df_filtered_def isin_map mask_and_map boolean_index_map conj_assoc)

text \<open>
  C4. The filter keeps exactly the records that pass every one of the four predicates,
  each a membership test of the record's field in the values selected for it; the records
  kept stay in their order. If the selection of any predicate is empty, the result is the
  empty table, whatever the other selections are.
\<close>

theorem df_filtered_membership:
  "df_filtered df selected_states selected_months selected_colors selected_sizes =
     filter (\<lambda>r. state r \<in> Some ` set selected_states \<and>
                 order_year_month r \<in> set selected_months \<and>
                 color r \<in> Some ` set selected_colors \<and>
                 size_col r \<in> Some ` set selected_sizes) df \<and>
   (r \<in> set (df_filtered df selected_states selected_months selected_colors selected_sizes) \<longleftrightarrow>
      r \<in> set df \<and>
      (\<exists>v \<in> set selected_states. state r = Some v) \<and>
      order_year_month r \<in> set selected_months \<and>
      (\<exists>v \<in> set selected_colors. color r = Some v) \<and>
      (\<exists>v \<in> set selected_sizes. size_col r = Some v)) \<and>
   (selected_states = [] \<or> selected_months = [] \<or> selected_colors = [] \<or> selected_sizes = []
      \<longrightarrow> df_filtered df selected_states selected_months selected_colors selected_sizes = [])"
proof -
  have a: "df_filtered df selected_states selected_months selected_colors selected_sizes =
     filter (\<lambda>r. state r \<in> Some ` set selected_states \<and>
                 order_year_month r \<in> set selected_months \<and>
                 color r \<in> Some ` set selected_colors \<and>
                 size_col r \<in> Some ` set selected_sizes) df"
    by (rule df_filtered_filter)
  show ?thesis
    unfolding a by auto
qed

theorem df_filtered_membership_witness:
  "df_filtered [sample_order ''DE'' 1 None None, sample_order ''FR'' 1 None None]
       [] [''2024-01''] [''red''] [''M''] = [] \<and>
   df_filtered [sample_order ''DE'' 1 None None, sample_order ''FR'' 1 None None]
       [''FR''] [''2024-01''] [''red''] [''M''] = [sample_order ''FR'' 1 None None]"
proof -
  have e: "df_filtered [sample_order ''DE'' 1 None None, sample_order ''FR'' 1 None None]
       [''FR''] [''2024-01''] [''red''] [''M''] = [sample_order ''FR'' 1 None None]"
    using df_filtered_membership
      [of "[sample_order ''DE'' 1 None None, sample_order ''FR'' 1 None None]"
          "[''FR'']" "[''2024-01'']" "[''red'']" "[''M'']"]
    by (simp add: sample_order_def)
  show ?thesis
    using e df_filtered_membership
      [of "[sample_order ''DE'' 1 None None, sample_order ''FR'' 1 None None]"
          "[]" "[''2024-01'']" "[''red'']" "[''M'']"]
    by simp
qed

subsection \<open>Grouped aggregation\<close>

lemma set_map_filter_key: "set (List.map_filter key df) = {k. \<exists>r \<in> set df. key r = Some k}"
  by (induction df) (auto simp add: List.map_filter_simps split: option.splits)

lemma groupby_keys: "map fst (groupby key df) = sort (remdups (List.map_filter key df))"
  by (simp add: groupby_def comp_def)

lemma groupby_Nil: "groupby key [] = []"
  by (simp add: groupby_def)

lemma groupby_distinct: "distinct (map fst (groupby key df))"
  by (simp add: groupby_keys)

lemma groupby_set: "set (map fst (groupby key df)) = {k. \<exists>r \<in> set df. key r = Some k}"
  by (simp add: groupby_keys set_map_filter_key)

lemma groupby_entry:
  "(k, g) \<in> set (groupby key df) \<Longrightarrow> g = filter (\<lambda>r. key r = Some k) df"
  by (auto simp add: groupby_def)

lemma groupby_mean_keys: "map fst (groupby_mean key val df) = map fst (groupby key df)"
  by (simp add: groupby_mean_def comp_def case_prod_unfold)

lemma groupby_sum_keys: "map fst (groupby_sum key val df) = map fst (groupby key df)"
  by (simp add: groupby_sum_def comp_def case_prod_unfold)

lemma groupby_size_keys: "map fst (groupby_size key df) = map fst (groupby key df)"
  by (simp add: groupby_size_def comp_def case_prod_unfold)

lemma groupby_mean_entry:
  "(k, v) \<in> set (groupby_mean key val df) \<Longrightarrow>
     v = mean (map val (filter (\<lambda>r. key r = Some k) df))"
  by (auto simp add: groupby_mean_def dest: groupby_entry)

lemma return_rate_keys: "map fst (return_rate_by_state df) = map fst (groupby state df)"
  by (simp add: return_rate_by_state_def comp_def case_prod_unfold groupby_mean_keys [simplified comp_def case_prod_unfold])

lemma sort_values_desc_set: "set (sort_values_desc xs) = set xs"
  by (simp add: sort_values_desc_def)

lemma sort_values_desc_keys_set: "set (map fst (sort_values_desc xs)) = set (map fst xs)"
  by (simp add: sort_values_desc_def)

lemma distinct_map_insort_key:
  "distinct (map g (insort_key f x xs)) \<longleftrightarrow> g x \<notin> g ` set xs \<and> distinct (map g xs)"
  by (induction xs) (auto simp add: set_insort_key)

lemma distinct_map_sort_key: "distinct (map g (sort_key f xs)) = distinct (map g xs)"
  by (induction xs) (simp_all add: distinct_map_insort_key)

lemma sort_values_desc_keys_distinct:
  "distinct (map fst (sort_values_desc xs)) = distinct (map fst xs)"
  by (simp add: sort_values_desc_def distinct_map_sort_key)

lemma return_rate_set:
  "set (map fst (return_rate_by_state df)) = {k. \<exists>r \<in> set df. state r = Some k}"
  by (simp only: return_rate_keys groupby_set)

lemma return_rate_distinct: "distinct (map fst (return_rate_by_state df))"
  by (simp only: return_rate_keys groupby_distinct)

lemma return_rate_entry:
  "(k, v) \<in> set (return_rate_by_state df) \<Longrightarrow>
     v = map_option (\<lambda>x. x * 100)
           (mean (map (\<lambda>r. map_option of_int (returnShipment r)) (filter (\<lambda>r. state r = Some k) df)))"
  by (auto simp add: return_rate_by_state_def dest: groupby_mean_entry)

lemma manufacturer_revenue_set:
  "set (map fst (manufacturer_revenue df)) = {k. \<exists>r \<in> set df. manufacturerID r = Some k}"
  by (simp only: manufacturer_revenue_def sort_values_desc_keys_set groupby_sum_keys groupby_set)

lemma manufacturer_revenue_distinct: "distinct (map fst (manufacturer_revenue df))"
  by (simp only: manufacturer_revenue_def sort_values_desc_keys_distinct groupby_sum_keys groupby_distinct)

lemma color_orders_keys:
  "map fst (map (\<lambda>(k, n). (k, int n)) (groupby_size color df)) = map fst (groupby color df)"
  by (simp add: comp_def case_prod_unfold groupby_size_keys [simplified comp_def case_prod_unfold])

lemma color_orders_set:
  "set (map fst (color_orders df)) = {k. \<exists>r \<in> set df. color r = Some k}"
  by (simp only: color_orders_def sort_values_desc_keys_set color_orders_keys groupby_set)

lemma color_orders_distinct: "distinct (map fst (color_orders df))"
  by (simp only: color_orders_def sort_values_desc_keys_distinct color_orders_keys groupby_distinct)

lemma aggregation_empty:
  "return_rate_by_state [] = [] \<and> manufacturer_revenue [] = [] \<and> color_orders [] = []"
  by (simp add: return_rate_by_state_def manufacturer_revenue_def color_orders_def
      groupby_mean_def groupby_sum_def groupby_size_def groupby_Nil sort_values_desc_def)

lemma map_of_absent: "k \<notin> set (map fst xs) \<Longrightarrow> map_of xs k = None"
  by (simp add: map_of_eq_None_iff)

lemma groupby_aggregations:
  "distinct (map fst (return_rate_by_state df)) \<and>
   set (map fst (return_rate_by_state df)) = {k. \<exists>r \<in> set df. state r = Some k} \<and>
   distinct (map fst (manufacturer_revenue df)) \<and>
   set (map fst (manufacturer_revenue df)) = {k. \<exists>r \<in> set df. manufacturerID r = Some k} \<and>
   distinct (map fst (color_orders df)) \<and>
   set (map fst (color_orders df)) = {k. \<exists>r \<in> set df. color r = Some k} \<and>
   ((\<forall>r \<in> set df. state r \<noteq> Some k) \<longrightarrow> map_of (return_rate_by_state df) k = None) \<and>
   (\<forall>(k, v) \<in> set (return_rate_by_state df).
      v = map_option (\<lambda>x. x * 100)
            (mean (map (\<lambda>r. map_option of_int (returnShipment r))
                    (filter (\<lambda>r. state r = Some k) df)))) \<and>
   return_rate_by_state [] = [] \<and> manufacturer_revenue [] = [] \<and> color_orders [] = [] \<and>
   (state r1 = Some ''DE'' \<and> state r2 = Some ''DE'' \<and> state r3 = Some ''FR'' \<and>
    returnShipment r1 = Some 1 \<and> returnShipment r2 = Some 0 \<and> returnShipment r3 = Some 1 \<and>
    (\<forall>r \<in> {r1, r2, r3}. order_year_month r \<in> set ms \<and> color r \<in> Some ` set cs \<and>
                           size_col r \<in> Some ` set zs)
    \<longrightarrow> return_rate_by_state (df_filtered [r1, r2, r3] [''DE''] ms cs zs) = [(''DE'', Some 50)] \<and>
        map_of (return_rate_by_state (df_filtered [r1, r2, r3] [''DE''] ms cs zs)) ''FR'' = None)"
proof -
  have absent: "(\<forall>r \<in> set df. state r \<noteq> Some k) \<longrightarrow> map_of (return_rate_by_state df) k = None"
  proof
    assume "\<forall>r \<in> set df. state r \<noteq> Some k"
    then have "k \<notin> set (map fst (return_rate_by_state df))"
      by (simp only: return_rate_set) simp
    then show "map_of (return_rate_by_state df) k = None"
      by (rule map_of_absent)
  qed
  have entry: "\<forall>(k, v) \<in> set (return_rate_by_state df).
      v = map_option (\<lambda>x. x * 100)
            (mean (map (\<lambda>r. map_option of_int (returnShipment r))
                    (filter (\<lambda>r. state r = Some k) df)))"
    using return_rate_entry by blast
  have scen: "state r1 = Some ''DE'' \<and> state r2 = Some ''DE'' \<and> state r3 = Some ''FR'' \<and>
    returnShipment r1 = Some 1 \<and> returnShipment r2 = Some 0 \<and> returnShipment r3 = Some 1 \<and>
    (\<forall>r \<in> {r1, r2, r3}. order_year_month r \<in> set ms \<and> color r \<in> Some ` set cs \<and>
                           size_col r \<in> Some ` set zs)
    \<longrightarrow> return_rate_by_state (df_filtered [r1, r2, r3] [''DE''] ms cs zs) = [(''DE'', Some 50)] \<and>
        map_of (return_rate_by_state (df_filtered [r1, r2, r3] [''DE''] ms cs zs)) ''FR'' = None"
  proof
    assume h: "state r1 = Some ''DE'' \<and> state r2 = Some ''DE'' \<and> state r3 = Some ''FR'' \<and>
      returnShipment r1 = Some 1 \<and> returnShipment r2 = Some 0 \<and> returnShipment r3 = Some 1 \<and>
      (\<forall>r \<in> {r1, r2, r3}. order_year_month r \<in> set ms \<and> color r \<in> Some ` set cs \<and>
                             size_col r \<in> Some ` set zs)"
    have f: "df_filtered [r1, r2, r3] [''DE''] ms cs zs = [r1, r2]"
      using h by (simp add: df_filtered_filter)
    have g: "groupby state [r1, r2] = [(''DE'', [r1, r2])]"
      using h by (simp add: groupby_def)
    have "return_rate_by_state [r1, r2] = [(''DE'', Some 50)]"
      using h by (simp add: return_rate_by_state_def groupby_mean_def g mean_def)
    then show "return_rate_by_state (df_filtered [r1, r2, r3] [''DE''] ms cs zs) = [(''DE'', Some 50)] \<and>
        map_of (return_rate_by_state (df_filtered [r1, r2, r3] [''DE''] ms cs zs)) ''FR'' = None"
      by (simp add: f)
  qed
  from return_rate_distinct return_rate_set manufacturer_revenue_distinct
    manufacturer_revenue_set color_orders_distinct color_orders_set absent entry
    aggregation_empty scen
  show ?thesis by blast
qed

lemma age_distribution_keys:
  "map fst (map (\<lambda>l. (l, f l)) ls) = ls"
  by (induction ls) simp_all

lemma age_distribution_categories:
  "set (map fst (age_distribution df)) = set ([''Unknown''] @ age_labels) \<and>
   distinct (map fst (age_distribution df)) \<and>
   (\<forall>(l, n) \<in> set (age_distribution df).
      n = int (length (filter (\<lambda>r. age_group (customer_age r) = Some l) df)))"
proof (intro conjI)
  show "set (map fst (age_distribution df)) = set ([''Unknown''] @ age_labels)"
    by (simp only: age_distribution_def sort_values_desc_keys_set age_distribution_keys)
  have "distinct ([''Unknown''] @ age_labels)"
    by (simp add: age_labels_def)
  then show "distinct (map fst (age_distribution df))"
    by (simp only: age_distribution_def sort_values_desc_keys_distinct age_distribution_keys)
  show "\<forall>(l, n) \<in> set (age_distribution df).
      n = int (length (filter (\<lambda>r. age_group (customer_age r) = Some l) df))"
    by (auto simp add: age_distribution_def sort_values_desc_set)
qed

text \<open>
  C5. The count by age group is a \<^verbatim>\<open>value_counts\<close> of a categorical column, which has an
  entry for every category: on the empty table it has five entries, each with count 0, and
  on a table with one customer of age 25 it has entries with count 0 for the four groups
  that do not occur.
\<close>

theorem age_distribution_zero_counts:
  "age_distribution ([] :: (string, int option, rat) order list)
     = [(''Unknown'', 0), (''18-30'', 0), (''31-45'', 0), (''46-60'', 0), (''60+'', 0)] \<and>
   age_distribution [sample_order ''DE'' 1 None (Some 25)]
     = [(''18-30'', 1), (''Unknown'', 0), (''31-45'', 0), (''46-60'', 0), (''60+'', 0)]"
  by (simp add: age_distribution_def sort_values_desc_def age_labels_def sample_order_def
      age_group_Some)

text \<open>
  C5, amended. The count by age group has one entry for each of the five age groups,
  whether it occurs or not, with the number of records in the group, which is 0 for a group
  without records, also on the empty table. The aggregations by \<^verbatim>\<open>groupby\<close> and the count
  of a text column, that is the grouped mean (the return rate by state), the grouped sum (the
  revenue by manufacturer) and the grouped count (the orders by colour), have exactly one
  entry for each key that occurs in the table and none for a key that does not occur: a
  group without records has no entry, so no mean over zero records is taken. The entry of a
  state is 100 times the mean of the return flags of its records. On the empty table each
  of the three is empty. For three records of states DE, DE, FR with return flags 1, 0, 1,
  filtering to state DE and taking the return rate gives 50 for DE and no entry for FR.
\<close>

theorem grouped_aggregation_present_keys:
  "(set (map fst (age_distribution df)) = set ([''Unknown''] @ age_labels) \<and>
    distinct (map fst (age_distribution df)) \<and>
    (\<forall>(l, n) \<in> set (age_distribution df).
       n = int (length (filter (\<lambda>r. age_group (customer_age r) = Some l) df)))) \<and>
   distinct (map fst (return_rate_by_state df)) \<and>
   set (map fst (return_rate_by_state df)) = {k. \<exists>r \<in> set df. state r = Some k} \<and>
   distinct (map fst (manufacturer_revenue df)) \<and>
   set (map fst (manufacturer_revenue df)) = {k. \<exists>r \<in> set df. manufacturerID r = Some k} \<and>
   distinct (map fst (color_orders df)) \<and>
   set (map fst (color_orders df)) = {k. \<exists>r \<in> set df. color r = Some k} \<and>
   ((\<forall>r \<in> set df. state r \<noteq> Some k) \<longrightarrow> map_of (return_rate_by_state df) k = None) \<and>
   (\<forall>(k, v) \<in> set (return_rate_by_state df).
      v = map_option (\<lambda>x. x * 100)
            (mean (map (\<lambda>r. map_option of_int (returnShipment r))
                    (filter (\<lambda>r. state r = Some k) df)))) \<and>
   return_rate_by_state [] = [] \<and> manufacturer_revenue [] = [] \<and> color_orders [] = [] \<and>
   (state r1 = Some ''DE'' \<and> state r2 = Some ''DE'' \<and> state r3 = Some ''FR'' \<and>
    returnShipment r1 = Some 1 \<and> returnShipment r2 = Some 0 \<and> returnShipment r3 = Some 1 \<and>
    (\<forall>r \<in> {r1, r2, r3}. order_year_month r \<in> set ms \<and> color r \<in> Some ` set cs \<and>
                           size_col r \<in> Some ` set zs)
    \<longrightarrow> return_rate_by_state (df_filtered [r1, r2, r3] [''DE''] ms cs zs) = [(''DE'', Some 50)] \<and>
        map_of (return_rate_by_state (df_filtered [r1, r2, r3] [''DE''] ms cs zs)) ''FR'' = None)"
  by (rule conjI, rule age_distribution_categories, rule groupby_aggregations)

theorem grouped_aggregation_present_keys_witness:
  "return_rate_by_state
     (df_filtered [sample_order ''DE'' 1 None None, sample_order ''DE'' 0 None None,
                   sample_order ''FR'' 1 None None] [''DE''] [''2024-01''] [''red''] [''M''])
     = [(''DE'', Some 50)] \<and>
   map_of (return_rate_by_state
     (df_filtered [sample_order ''DE'' 1 None None, sample_order ''DE'' 0 None None,
                   sample_order ''FR'' 1 None None] [''DE''] [''2024-01''] [''red''] [''M'']))
     ''FR'' = None \<and>
   set (map fst (age_distribution ([] :: (string, int option, rat) order list)))
     = {''Unknown'', ''18-30'', ''31-45'', ''46-60'', ''60+''}"
proof -
  let ?r1 = "sample_order ''DE'' 1 None None"
  let ?r2 = "sample_order ''DE'' 0 None None"
  let ?r3 = "sample_order ''FR'' 1 None None"
  note t = grouped_aggregation_present_keys
      [of "[] :: (string, int option, rat) order list" "''DE''" ?r1 ?r2 ?r3
          "[''2024-01'']" "[''red'']" "[''M'']"]
  have h: "state ?r1 = Some ''DE'' \<and> state ?r2 = Some ''DE'' \<and> state ?r3 = Some ''FR'' \<and>
    returnShipment ?r1 = Some 1 \<and> returnShipment ?r2 = Some 0 \<and> returnShipment ?r3 = Some 1 \<and>
    (\<forall>r \<in> {?r1, ?r2, ?r3}. order_year_month r \<in> set [''2024-01''] \<and>
       color r \<in> Some ` set [''red''] \<and> size_col r \<in> Some ` set [''M''])"
    by (simp add: sample_order_def)
  have s: "return_rate_by_state (df_filtered [?r1, ?r2, ?r3] [''DE''] [''2024-01''] [''red''] [''M''])
          = [(''DE'', Some 50)] \<and>
        map_of (return_rate_by_state
          (df_filtered [?r1, ?r2, ?r3] [''DE''] [''2024-01''] [''red''] [''M''])) ''FR'' = None"
    using t [THEN conjunct2, THEN conjunct2, THEN conjunct2, THEN conjunct2, THEN conjunct2,
        THEN conjunct2, THEN conjunct2, THEN conjunct2, THEN conjunct2, THEN conjunct2,
        THEN conjunct2, THEN conjunct2] h
    by (rule mp)
  have a: "set (map fst (age_distribution ([] :: (string, int option, rat) order list)))
     = {''Unknown'', ''18-30'', ''31-45'', ''46-60'', ''60+''}"
    using t [THEN conjunct1, THEN conjunct1] by (simp add: age_labels_def)
  from s a show ?thesis by simp
qed

subsection \<open>Delivery performance\<close>

lemma groupby_mean_key_present:
  assumes "(k, v) \<in> set (groupby_mean key val df)"
  shows "\<exists>r \<in> set df. key r = Some k"
proof -
  have "k \<in> set (map fst (groupby_mean key val df))"
    using assms by force
  then show ?thesis
    by (simp only: groupby_mean_keys groupby_set) simp
qed

lemma delivery_performance_filter:
  "delivery_performance df =
     groupby_mean (\<lambda>r. dt_month (orderDate r)) delay_rat (filter (\<lambda>r. gt0 (delivery_delay r)) df)"
  by (simp add: delivery_performance_def boolean_index_map)

lemma df_delays_filter: "df_delays df = filter (\<lambda>r. gt0 (delivery_delay r)) df"
  by (simp add: df_delays_def boolean_index_map)

lemma sum_list_pos_rat:
  fixes xs :: "rat list"
  shows "xs \<noteq> [] \<Longrightarrow> \<forall>x \<in> set xs. 0 < x \<Longrightarrow> 0 < sum_list xs"
proof (induction xs)
  case Nil
  then show ?case by simp
next
  case (Cons x xs)
  show ?case
  proof (cases "xs = []")
    case True
    with Cons.prems show ?thesis by simp
  next
    case False
    with Cons have "0 < sum_list xs" by simp
    with Cons.prems show ?thesis by (simp add: add_pos_pos)
  qed
qed

lemma map_filter_id_Some:
  "\<forall>x \<in> set xs. \<exists>q. x = Some q \<Longrightarrow> List.map_filter id xs = map the xs"
  by (induction xs) (auto simp add: List.map_filter_simps)

lemma mean_pos:
  assumes "xs \<noteq> []" and "\<forall>x \<in> set xs. \<exists>q. x = Some q \<and> 0 < q"
  shows "\<exists>q. mean xs = Some q \<and> 0 < q"
proof -
  have m: "List.map_filter id xs = map the xs"
    using assms(2) by (intro map_filter_id_Some) blast
  have ne: "map the xs \<noteq> []"
    using assms(1) by simp
  have pos: "\<forall>x \<in> set (map the xs). 0 < x"
    using assms(2) by fastforce
  have "0 < sum_list (map the xs)"
    using ne pos by (rule sum_list_pos_rat)
  moreover have "0 < (of_nat (length (map the xs)) :: rat)"
    using assms(1) by simp
  ultimately have "0 < sum_list (map the xs) / of_nat (length (map the xs))"
    by (rule divide_pos_pos)
  then show ?thesis
    using ne by (simp add: mean_def m)
qed

lemma gt0_delay_rat: "gt0 (delivery_delay r) \<Longrightarrow> \<exists>q. delay_rat r = Some q \<and> 0 < q"
  by (auto simp add: gt0_def delay_rat_def split: option.splits)

lemma delivery_performance_entry:
  assumes "(m, v) \<in> set (delivery_performance df)"
  shows "v = mean (map delay_rat
               (filter (\<lambda>r. gt0 (delivery_delay r) \<and> dt_month (orderDate r) = Some m) df))
         \<and> (\<exists>q. v = Some q \<and> 0 < q)"
proof -
  let ?pos = "filter (\<lambda>r. gt0 (delivery_delay r)) df"
  let ?g = "filter (\<lambda>r. dt_month (orderDate r) = Some m) ?pos"
  have e: "(m, v) \<in> set (groupby_mean (\<lambda>r. dt_month (orderDate r)) delay_rat ?pos)"
    using assms by (simp only: delivery_performance_filter)
  have v: "v = mean (map delay_rat ?g)"
    using e by (rule groupby_mean_entry)
  have "\<exists>r \<in> set ?pos. dt_month (orderDate r) = Some m"
    using e by (rule groupby_mean_key_present)
  then have ne: "map delay_rat ?g \<noteq> []"
    by (auto simp add: filter_empty_conv)
  have "\<forall>x \<in> set (map delay_rat ?g). \<exists>q. x = Some q \<and> 0 < q"
    by (auto dest: gt0_delay_rat)
  with ne have "\<exists>q. mean (map delay_rat ?g) = Some q \<and> 0 < q"
    by (rule mean_pos)
  with v show ?thesis
    by (simp add: conj_commute)
qed

text \<open>
  C10. The average delivery delay by month of \<^verbatim>\<open>main.py\<close> and of \<^verbatim>\<open>Sample02.py\<close> takes
  only the records whose delay is greater than zero: a record whose delay is zero or
  negative changes neither result, and every average reported for a month is the mean of
  the positive delays of that month, hence positive.
\<close>

theorem delivery_performance_positive_only:
  assumes "delivery_delay r = Some d" and "d \<le> 0"
  shows "delivery_performance (xs @ r # ys) = delivery_performance (xs @ ys) \<and>
         delays (xs @ r # ys) = delays (xs @ ys) \<and>
         (\<forall>(m, v) \<in> set (delivery_performance df).
            v = mean (map delay_rat
                  (filter (\<lambda>x. gt0 (delivery_delay x) \<and> dt_month (orderDate x) = Some m) df)) \<and>
            (\<exists>q. v = Some q \<and> 0 < q))"
proof -
  have n: "\<not> gt0 (delivery_delay r)"
    using assms by (simp add: gt0_def)
  have a: "delivery_performance (xs @ r # ys) = delivery_performance (xs @ ys)"
    using n by (simp add: delivery_performance_filter)
  have b: "delays (xs @ r # ys) = delays (xs @ ys)"
    using n by (simp add: delays_def df_delays_filter)
  have c: "\<forall>(m, v) \<in> set (delivery_performance df).
            v = mean (map delay_rat
                  (filter (\<lambda>x. gt0 (delivery_delay x) \<and> dt_month (orderDate x) = Some m) df)) \<and>
            (\<exists>q. v = Some q \<and> 0 < q)"
    using delivery_performance_entry by blast
  from a b c show ?thesis by blast
qed

theorem delivery_performance_positive_only_witness:
  "delivery_delay (sample_order ''DE'' 1 (Some 0) None) = Some 0 \<and> (0::int) \<le> 0 \<and>
   delivery_performance
     ([sample_order ''DE'' 1 (Some 4) None] @ sample_order ''DE'' 1 (Some 0) None
        # [sample_order ''DE'' 1 (Some (-3)) None, sample_order ''DE'' 1 (Some 6) None])
     = [(1, Some 5)] \<and>
   delivery_performance
     ([sample_order ''DE'' 1 (Some 4) None]
        @ [sample_order ''DE'' 1 (Some (-3)) None, sample_order ''DE'' 1 (Some 6) None])
     = [(1, Some 5)]"
proof -
  have h: "delivery_delay (sample_order ''DE'' 1 (Some 0) None) = Some 0"
    by (simp add: sample_order_def)
  have e: "delivery_performance
     ([sample_order ''DE'' 1 (Some 4) None]
        @ [sample_order ''DE'' 1 (Some (-3)) None, sample_order ''DE'' 1 (Some 6) None])
     = [(1, Some 5)]"
    by (simp add: delivery_performance_filter sample_order_def gt0_def groupby_mean_def
        groupby_def dt_month_def delay_rat_def mean_def)
  show ?thesis
    using h e delivery_performance_positive_only [OF h,
        where xs = "[sample_order ''DE'' 1 (Some 4) None]"
          and ys = "[sample_order ''DE'' 1 (Some (-3)) None, sample_order ''DE'' 1 (Some 6) None]"
          and df = "[] :: (string, int option, rat) order list"]
    by simp
qed

subsection \<open>Day numbers count days\<close>

text \<open>
  The day number of the day after a date is one more than the day number of the date, also
  across the end of a month, of a year and of a leap year. So the difference of two day
  numbers is the number of days from one date to the other.
\<close>

lemma div_step:
  fixes n k :: int
  assumes "0 < k"
  shows "(n + 1) div k = n div k + (if (n + 1) mod k = 0 then 1 else 0)"
proof -
  have r: "0 \<le> n mod k" "n mod k < k"
    using assms by simp_all
  have n: "n = k * (n div k) + n mod k"
    by simp
  show ?thesis
  proof (cases "n mod k + 1 < k")
    case True
    have e: "n + 1 = k * (n div k) + (n mod k + 1)"
      using n by linarith
    have p: "0 \<le> n mod k + 1"
      using r by linarith
    have "(n + 1) div k = n div k"
      using e p True by (rule int_div_pos_eq)
    moreover have "(n + 1) mod k = n mod k + 1"
      using e p True by (rule int_mod_pos_eq)
    ultimately show ?thesis
      using r by simp
  next
    case False
    with r have k: "n mod k + 1 = k"
      by linarith
    have d: "k * (n div k + 1) = k * (n div k) + k"
      by (simp add: algebra_simps)
    have e: "n + 1 = k * (n div k + 1) + 0"
      using n k d by linarith
    have z: "(0::int) \<le> 0"
      by simp
    have "(n + 1) div k = n div k + 1"
      using e z assms by (rule int_div_pos_eq)
    moreover have "(n + 1) mod k = 0"
      using e z assms by (rule int_mod_pos_eq)
    ultimately show ?thesis
      by simp
  qed
qed

lemma mod_100_4: "(y::int) mod 100 = 0 \<Longrightarrow> y mod 4 = 0"
proof -
  assume "y mod 100 = 0"
  then have "100 dvd y" by (simp add: mod_eq_0_iff_dvd)
  moreover have "(4::int) dvd 100" by simp
  ultimately have "4 dvd y" by (rule dvd_trans [rotated])
  then show ?thesis by (simp add: mod_eq_0_iff_dvd)
qed

lemma mod_400_100: "(y::int) mod 400 = 0 \<Longrightarrow> y mod 100 = 0"
proof -
  assume "y mod 400 = 0"
  then have "400 dvd y" by (simp add: mod_eq_0_iff_dvd)
  moreover have "(100::int) dvd 400" by simp
  ultimately have "100 dvd y" by (rule dvd_trans [rotated])
  then show ?thesis by (simp add: mod_eq_0_iff_dvd)
qed


lemma days_before_year_Suc:
  "days_before_year (y + 1) = days_before_year y + (if is_leap y then 366 else 365)"
proof -
  define p4 q4 p100 q100 p400 q400
    where "p4 = y div 4" and "q4 = (y - 1) div 4"
      and "p100 = y div 100" and "q100 = (y - 1) div 100"
      and "p400 = y div 400" and "q400 = (y - 1) div 400"
  have a: "p4 = q4 + (if y mod 4 = 0 then 1 else 0)"
    unfolding p4_def q4_def using div_step [of 4 "y - 1"] by simp
  have b: "p100 = q100 + (if y mod 100 = 0 then 1 else 0)"
    unfolding p100_def q100_def using div_step [of 100 "y - 1"] by simp
  have c: "p400 = q400 + (if y mod 400 = 0 then 1 else 0)"
    unfolding p400_def q400_def using div_step [of 400 "y - 1"] by simp
  have s: "days_before_year (y + 1) = y * 365 + p4 - p100 + p400"
    by (simp add: days_before_year_def p4_def p100_def p400_def)
  have t: "days_before_year y = y * 365 - 365 + q4 - q100 + q400"
    by (simp add: days_before_year_def q4_def q100_def q400_def algebra_simps)
  have d: "days_before_year (y + 1) - days_before_year y =
             365 + (p4 - q4) - (p100 - q100) + (p400 - q400)"
    unfolding s t by linarith
  show ?thesis
  proof (cases "y mod 400 = 0")
    case True
    then have h: "y mod 100 = 0" by (rule mod_400_100)
    then have f: "y mod 4 = 0" by (rule mod_100_4)
    have l: "is_leap y" using True f by (simp add: is_leap_def)
    have "p4 - q4 = 1" "p100 - q100 = 1" "p400 - q400 = 1"
      using a b c True h f by simp_all
    with d l show ?thesis by simp
  next
    case n400: False
    show ?thesis
    proof (cases "y mod 100 = 0")
      case True
      then have f: "y mod 4 = 0" by (rule mod_100_4)
      have l: "\<not> is_leap y" using True n400 by (simp add: is_leap_def)
      have "p4 - q4 = 1" "p100 - q100 = 1" "p400 - q400 = 0"
        using a b c True n400 f by simp_all
      with d l show ?thesis by simp
    next
      case n100: False
      show ?thesis
      proof (cases "y mod 4 = 0")
        case True
        have l: "is_leap y" using True n100 by (simp add: is_leap_def)
        have "p4 - q4 = 1" "p100 - q100 = 0" "p400 - q400 = 0"
          using a b c True n400 n100 by simp_all
        with d l show ?thesis by simp
      next
        case False
        have l: "\<not> is_leap y" using False by (simp add: is_leap_def)
        have "p4 - q4 = 0" "p100 - q100 = 0" "p400 - q400 = 0"
          using a b c False n400 n100 by simp_all
        with d l show ?thesis by simp
      qed
    qed
  qed
qed


lemma days_before_month_Suc:
  assumes "1 \<le> m"
  shows "days_before_month y (m + 1) = days_before_month y m + days_in_month y m"
proof -
  from assms have "[1 .. m] = [1 .. m - 1] @ [m]"
    by (simp add: upto_rec2)
  then show ?thesis
    by (simp add: days_before_month_def)
qed

lemma days_before_month_1: "days_before_month y 1 = 0"
  by (simp add: days_before_month_def)

lemma days_before_month_12:
  "days_before_month y 12 = 334 + (if is_leap y then 1 else 0)"
proof -
  have "[1 .. 11] = [1, 2, 3, 4, 5, 6, 7, 8, 9, 10, 11 :: int]"
    by (simp add: upto.simps)
  then show ?thesis
    by (simp add: days_before_month_def days_in_month_def)
qed

lemma toordinal_next_day:
  assumes "calendar_date d"
  shows "toordinal (next_day d) = toordinal d + 1"
proof (cases "day d < days_in_month (year d) (month d)")
  case True
  then show ?thesis by (simp add: next_day_def toordinal_def)
next
  case False
  with assms have dd: "day d = days_in_month (year d) (month d)"
    by (simp add: calendar_date_def)
  show ?thesis
  proof (cases "month d < 12")
    case True
    from assms have "1 \<le> month d" by (simp add: calendar_date_def)
    then show ?thesis
      using False True dd by (simp add: next_day_def toordinal_def days_before_month_Suc)
  next
    case m: False
    with assms have m12: "month d = 12" by (simp add: calendar_date_def)
    have "day d = 31" using dd m12 by (simp add: days_in_month_def)
    then show ?thesis
      using False m m12
      by (simp add: next_day_def toordinal_def days_before_month_1 days_before_month_12
          days_before_year_Suc)
  qed
qed

lemma calendar_date_next_day: "calendar_date d \<Longrightarrow> calendar_date (next_day d)"
  by (auto simp add: calendar_date_def next_day_def days_in_month_def)

lemma calendar_date_days_after: "calendar_date d \<Longrightarrow> calendar_date ((next_day ^^ n) d)"
  by (induction n) (simp_all add: calendar_date_next_day)

lemma toordinal_days_after:
  "calendar_date d \<Longrightarrow> toordinal ((next_day ^^ n) d) = toordinal d + int n"
  by (induction n) (simp_all add: toordinal_next_day calendar_date_days_after)

subsection \<open>Parsed dates\<close>

text \<open>
  A date that a format parse returns is a date of the calendar. No text is accepted by both
  formats: a text that parses as \<^verbatim>\<open>'%Y-%m-%d'\<close> starts with four digits, which
  \<^verbatim>\<open>%d\<close> does not accept.
\<close>

lemma make_date_valid: "make_date y m d = Some r \<Longrightarrow> valid_date r \<and> in_bounds r"
  by (auto simp add: make_date_def Let_def split: option.splits if_splits)

lemma strptime_valid: "strptime fmt s = Some r \<Longrightarrow> valid_date r \<and> in_bounds r"
  unfolding strptime_def
  by (cases fmt) (auto split: list.splits dest: make_date_valid)

lemma to_datetime_valid: "to_datetime fmt c = Some r \<Longrightarrow> calendar_date r"
  by (auto simp add: to_datetime_def valid_date_def split: option.splits dest: strptime_valid)

lemma make_date_None: "make_date y m None = None"
  by (simp add: make_date_def split: option.splits)

lemma make_date_None_y: "make_date None m d = None"
  by (simp add: make_date_def)

lemma match_d_length: "match_d s = Some v \<Longrightarrow> length s = 1 \<or> length s = 2"
  by (auto simp add: match_d_def split: if_splits)

lemma match_Y_length: "match_Y s = Some v \<Longrightarrow> length s = 4"
  by (auto simp add: match_Y_def split: if_splits)

lemma strptime_formats_disjoint:
  assumes "strptime YMD s = Some r"
  shows "strptime DMY s = None"
proof -
  from assms obtain a b c where s: "split_on CHR ''-'' s = [a, b, c]"
    and m: "make_date (match_Y a) (match_m b) (match_d c) = Some r"
    by (auto simp add: strptime_def split: list.splits)
  have "match_Y a \<noteq> None"
  proof
    assume "match_Y a = None"
    with m show False by (simp add: make_date_None_y)
  qed
  then have "length a = 4"
    by (auto dest: match_Y_length)
  then have "match_d a = None"
    by (simp add: match_d_def)
  then show ?thesis
    by (simp add: strptime_def s make_date_None)
qed

subsection \<open>Date subtraction\<close>

text \<open>
  The difference of two dates fits into 64 bits of nanoseconds exactly when the dates are
  at most 106751 days apart. The subtraction gives the difference of the day numbers then,
  and raises otherwise.
\<close>

lemma ns_fits:
  fixes n :: int
  shows "(- (2 ^ 63) < n * ns_per_day \<and> n * ns_per_day < 2 ^ 63) \<longleftrightarrow> \<bar>n\<bar> \<le> timedelta_max_days"
proof -
  have p: "(2::int) ^ 63 = 9223372036854775808"
    by simp
  show ?thesis
    unfolding p ns_per_day_def timedelta_max_days_def by linarith
qed

lemma ns_days: "n * ns_per_day div ns_per_day = (n::int)"
  by (simp add: ns_per_day_def)

lemma days_between_Some:
  "days_between (Some a) (Some b) =
     (if \<bar>toordinal a - toordinal b\<bar> \<le> timedelta_max_days
      then Inr (Some (toordinal a - toordinal b)) else Inl OverflowError)"
  by (simp only: days_between_def Let_def prod.case option.case ns_fits ns_days)

lemma days_between_None: "days_between None y = Inr None" "days_between x None = Inr None"
  by (simp_all add: days_between_def split: option.splits)

lemma days_between_far: "far_apart x y \<Longrightarrow> days_between x y = Inl OverflowError"
  by (cases x; cases y) (simp_all add: far_apart_def days_between_Some)

lemma days_between_near:
  "\<not> far_apart x y \<Longrightarrow>
     days_between x y =
       Inr (case x of None \<Rightarrow> None
            | Some a \<Rightarrow> (case y of None \<Rightarrow> None | Some b \<Rightarrow> Some (toordinal a - toordinal b)))"
  by (cases x; cases y) (simp_all add: far_apart_def days_between_Some days_between_None)

lemma days_between_Inr:
  assumes "days_between x y = Inr d"
  shows "\<not> far_apart x y \<and>
         d = (case x of None \<Rightarrow> None
              | Some a \<Rightarrow> (case y of None \<Rightarrow> None | Some b \<Rightarrow> Some (toordinal a - toordinal b)))"
proof (cases "far_apart x y")
  case True
  then have "days_between x y = Inl OverflowError" by (rule days_between_far)
  with assms show ?thesis by simp
next
  case False
  with assms days_between_near [OF False] show ?thesis by simp
qed

lemma days_between_Inl: "days_between x y = Inl e \<Longrightarrow> far_apart x y \<and> e = OverflowError"
proof (cases "far_apart x y")
  case True
  assume "days_between x y = Inl e"
  with days_between_far [OF True] True show ?thesis by simp
next
  case False
  assume "days_between x y = Inl e"
  with days_between_near [OF False] show ?thesis by simp
qed

lemma collect_map_Inr: "collect (map Inr out) = Inr out"
  by (induction out) simp_all

lemma collect_Inr: "collect xs = Inr out \<Longrightarrow> xs = map Inr out"
  by (induction xs arbitrary: out) (auto split: sum.splits)

lemma collect_Inr_iff: "collect xs = Inr out \<longleftrightarrow> xs = map Inr out"
  using collect_Inr collect_map_Inr by blast

lemma collect_all_Inr:
  "\<forall>x \<in> set xs. \<exists>v. x = Inr v \<Longrightarrow> \<exists>out. collect xs = Inr out \<and> map Inr out = xs"
proof (induction xs)
  case Nil
  then show ?case by simp
next
  case (Cons x xs)
  then obtain v out where "x = Inr v" "collect xs = Inr out" "map Inr out = xs"
    by auto
  then show ?case by simp
qed

lemma collect_Inl:
  "collect xs = Inl e \<Longrightarrow> Inl e \<in> set xs"
  by (induction xs) (auto split: sum.splits)

lemma collect_some_Inl:
  assumes "\<exists>x \<in> set xs. \<exists>e'. x = Inl e'" and "\<forall>x \<in> set xs. \<forall>e'. x = Inl e' \<longrightarrow> e' = e"
  shows "collect xs = Inl e"
proof (cases "collect xs")
  case (Inl e')
  then have "Inl e' \<in> set xs" by (rule collect_Inl)
  with assms(2) have "e' = e" by blast
  with Inl show ?thesis by simp
next
  case (Inr out)
  then have "xs = map Inr out" by (simp add: collect_Inr_iff)
  with assms(1) show ?thesis by auto
qed

subsection \<open>Loaded rows\<close>

text \<open>
  What a loaded row holds, in each file, and when a row makes the load raise: exactly when
  its order date and its delivery date are more than 106751 days apart.
\<close>

lemma load_row_main_fields:
  assumes "load_row_main parse_dob today cols r = Inr m"
  shows "orderDate m = to_datetime DMY (csv_orderDate r) \<and>
         deliveryDate m = to_datetime YMD (csv_deliveryDate r) \<and>
         creationDate m = to_datetime DMY (csv_creationDate r) \<and>
         dateOfBirth m = Option.bind (csv_dateOfBirth r) parse_dob \<and>
         days_between (deliveryDate m) (orderDate m) = Inr (delivery_delay m) \<and>
         order_year_month m = period_str (to_period_M (orderDate m)) \<and>
         customer_age m = calculate_age today (dateOfBirth m) \<and>
         itemID m = csv_itemID r \<and> manufacturerID m = csv_manufacturerID r \<and>
         price m = csv_price r \<and> returnShipment m = csv_returnShipment r"
  using assms by (auto simp add: load_row_main_def Let_def split: sum.splits)

lemma load_row_sample02_fields:
  assumes "load_row_sample02 parse_dob today cols r = Inr m"
  shows "orderDate m = to_datetime DMY (csv_orderDate r) \<and>
         deliveryDate m = to_datetime YMD (csv_deliveryDate r) \<and>
         creationDate m = to_datetime DMY (csv_creationDate r) \<and>
         dateOfBirth m = Option.bind (csv_dateOfBirth r) parse_dob \<and>
         days_between (deliveryDate m) (orderDate m) = Inr (delivery_delay m) \<and>
         order_year_month m = period_str (to_period_M (orderDate m)) \<and>
         customer_age m = customer_age_sample02 today (dateOfBirth m) \<and>
         itemID m = csv_itemID r \<and> manufacturerID m = csv_manufacturerID r \<and>
         price m = csv_price r \<and> returnShipment m = csv_returnShipment r"
  using assms by (auto simp add: load_row_sample02_def Let_def split: sum.splits)

lemma load_row_sample1_fields:
  assumes "load_row_sample1 today r = Inr m"
  shows "orderDate m = to_datetime DMY (csv_orderDate r) \<and>
         deliveryDate m = to_datetime DMY (csv_deliveryDate r) \<and>
         creationDate m = to_datetime DMY (csv_creationDate r) \<and>
         dateOfBirth m = to_datetime DMY (csv_dateOfBirth r) \<and>
         (\<exists>d. days_between (deliveryDate m) (orderDate m) = Inr d \<and>
              delivery_delay m = Some (fillna (Text ''Unknown'') (map_option Number d))) \<and>
         order_year_month m = to_period_M (orderDate m) \<and>
         customer_age m = calculate_age today (dateOfBirth m) \<and>
         itemID m = csv_itemID r \<and> manufacturerID m = csv_manufacturerID r \<and>
         price m = csv_price r \<and> returnShipment m = csv_returnShipment r"
  using assms
  by (auto simp add: load_row_sample1_def Let_def to_datetime_parsed_def split: sum.splits)

lemma load_row_main_far:
  "far_apart (to_datetime YMD (csv_deliveryDate r)) (to_datetime DMY (csv_orderDate r))
     \<Longrightarrow> load_row_main parse_dob today cols r = Inl OverflowError"
  by (simp add: load_row_main_def Let_def days_between_far)

lemma load_row_main_near:
  "\<not> far_apart (to_datetime YMD (csv_deliveryDate r)) (to_datetime DMY (csv_orderDate r))
     \<Longrightarrow> \<exists>m. load_row_main parse_dob today cols r = Inr m"
  by (simp add: load_row_main_def Let_def days_between_near)

lemma load_row_sample02_far:
  "far_apart (to_datetime YMD (csv_deliveryDate r)) (to_datetime DMY (csv_orderDate r))
     \<Longrightarrow> load_row_sample02 parse_dob today cols r = Inl OverflowError"
  by (simp add: load_row_sample02_def Let_def days_between_far)

lemma load_row_sample02_near:
  "\<not> far_apart (to_datetime YMD (csv_deliveryDate r)) (to_datetime DMY (csv_orderDate r))
     \<Longrightarrow> \<exists>m. load_row_sample02 parse_dob today cols r = Inr m"
  by (simp add: load_row_sample02_def Let_def days_between_near)

lemma load_row_sample1_far:
  "far_apart (to_datetime DMY (csv_deliveryDate r)) (to_datetime DMY (csv_orderDate r))
     \<Longrightarrow> load_row_sample1 today r = Inl OverflowError"
  by (simp add: load_row_sample1_def Let_def days_between_far to_datetime_parsed_def)

lemma load_row_sample1_near:
  "\<not> far_apart (to_datetime DMY (csv_deliveryDate r)) (to_datetime DMY (csv_orderDate r))
     \<Longrightarrow> \<exists>m. load_row_sample1 today r = Inr m"
  by (simp add: load_row_sample1_def Let_def days_between_near to_datetime_parsed_def)

lemma far_apart_None: "x = None \<or> y = None \<Longrightarrow> \<not> far_apart x y"
  by (auto simp add: far_apart_def split: option.splits)

lemma delay_facts:
  assumes "days_between dd od = Inr dl" and "od = to_datetime fmt c"
  shows "(od = None \<or> dd = None \<longrightarrow> dl = None) \<and>
         (\<forall>a b. od = Some a \<and> dd = Some b \<longrightarrow>
            dl = Some (toordinal b - toordinal a) \<and>
            \<bar>toordinal b - toordinal a\<bar> \<le> timedelta_max_days) \<and>
         (\<forall>a n. od = Some a \<and> dd = Some ((next_day ^^ n) a) \<longrightarrow> dl = Some (int n))"
proof (intro conjI allI impI)
  note d = days_between_Inr [OF assms(1)]
  show "dl = None" if "od = None \<or> dd = None"
    using that d by (auto split: option.splits)
  show "dl = Some (toordinal b - toordinal a)" if "od = Some a \<and> dd = Some b" for a b
    using that d by simp
  show "\<bar>toordinal b - toordinal a\<bar> \<le> timedelta_max_days" if "od = Some a \<and> dd = Some b" for a b
    using that d by (simp add: far_apart_def)
  show "dl = Some (int n)" if h: "od = Some a \<and> dd = Some ((next_day ^^ n) a)" for a n
  proof -
    from h assms(2) have "to_datetime fmt c = Some a"
      by simp
    then have "calendar_date a"
      by (rule to_datetime_valid)
    then have "toordinal ((next_day ^^ n) a) - toordinal a = int n"
      by (simp add: toordinal_days_after)
    with h d show ?thesis by simp
  qed
qed

subsection \<open>Delivery delay\<close>

lemma far_apart_None2: "y = None \<or> x = None \<Longrightarrow> \<not> far_apart x y"
  by (auto simp add: far_apart_def split: option.splits)

lemma load_row_main_delay:
  "load_row_main parse_dob today cols r = Inr m \<Longrightarrow>
     days_between (deliveryDate m) (orderDate m) = Inr (delivery_delay m)"
  by (rule load_row_main_fields [THEN conjunct2, THEN conjunct2, THEN conjunct2, THEN conjunct2,
        THEN conjunct1])

lemma load_row_main_orderDate:
  "load_row_main parse_dob today cols r = Inr m \<Longrightarrow>
     orderDate m = to_datetime DMY (csv_orderDate r)"
  by (rule load_row_main_fields [THEN conjunct1])

lemma load_row_main_deliveryDate:
  "load_row_main parse_dob today cols r = Inr m \<Longrightarrow>
     deliveryDate m = to_datetime YMD (csv_deliveryDate r)"
  by (rule load_row_main_fields [THEN conjunct2, THEN conjunct1])

lemma load_row_sample02_delay:
  "load_row_sample02 parse_dob today cols r = Inr m \<Longrightarrow>
     days_between (deliveryDate m) (orderDate m) = Inr (delivery_delay m)"
  by (rule load_row_sample02_fields [THEN conjunct2, THEN conjunct2, THEN conjunct2,
        THEN conjunct2, THEN conjunct1])

lemma load_row_sample02_orderDate:
  "load_row_sample02 parse_dob today cols r = Inr m \<Longrightarrow>
     orderDate m = to_datetime DMY (csv_orderDate r)"
  by (rule load_row_sample02_fields [THEN conjunct1])

lemma load_row_sample02_deliveryDate:
  "load_row_sample02 parse_dob today cols r = Inr m \<Longrightarrow>
     deliveryDate m = to_datetime YMD (csv_deliveryDate r)"
  by (rule load_row_sample02_fields [THEN conjunct2, THEN conjunct1])

lemma load_row_sample1_orderDate:
  "load_row_sample1 today r = Inr m \<Longrightarrow> orderDate m = to_datetime DMY (csv_orderDate r)"
  by (rule load_row_sample1_fields [THEN conjunct1])

lemma load_row_sample1_deliveryDate:
  "load_row_sample1 today r = Inr m \<Longrightarrow> deliveryDate m = to_datetime DMY (csv_deliveryDate r)"
  by (rule load_row_sample1_fields [THEN conjunct2, THEN conjunct1])

lemma load_row_sample1_delay:
  "load_row_sample1 today r = Inr m \<Longrightarrow>
     \<exists>d. days_between (deliveryDate m) (orderDate m) = Inr d \<and>
         delivery_delay m = Some (fillna (Text ''Unknown'') (map_option Number d))"
  by (rule load_row_sample1_fields [THEN conjunct2, THEN conjunct2, THEN conjunct2,
        THEN conjunct2, THEN conjunct1])

lemma main_delay:
  "(far_apart (to_datetime YMD (csv_deliveryDate r)) (to_datetime DMY (csv_orderDate r))
      \<longrightarrow> load_row_main parse_dob today cols r = Inl OverflowError) \<and>
   (to_datetime DMY (csv_orderDate r) = None \<or> to_datetime YMD (csv_deliveryDate r) = None
      \<longrightarrow> (\<exists>m. load_row_main parse_dob today cols r = Inr m \<and> delivery_delay m = None)) \<and>
   (\<not> far_apart (to_datetime YMD (csv_deliveryDate r)) (to_datetime DMY (csv_orderDate r))
      \<longrightarrow> (\<exists>m. load_row_main parse_dob today cols r = Inr m)) \<and>
   (\<forall>m. load_row_main parse_dob today cols r = Inr m \<longrightarrow>
      (orderDate m = None \<or> deliveryDate m = None \<longrightarrow> delivery_delay m = None) \<and>
      (\<forall>a b. orderDate m = Some a \<and> deliveryDate m = Some b \<longrightarrow>
         delivery_delay m = Some (toordinal b - toordinal a) \<and>
         \<bar>toordinal b - toordinal a\<bar> \<le> timedelta_max_days) \<and>
      (\<forall>a n. orderDate m = Some a \<and> deliveryDate m = Some ((next_day ^^ n) a) \<longrightarrow>
         delivery_delay m = Some (int n)))"
proof (intro conjI impI allI)
  let ?dd = "to_datetime YMD (csv_deliveryDate r)" and ?od = "to_datetime DMY (csv_orderDate r)"
  show "load_row_main parse_dob today cols r = Inl OverflowError" if "far_apart ?dd ?od"
    using that by (rule load_row_main_far)
  show "\<exists>m. load_row_main parse_dob today cols r = Inr m" if "\<not> far_apart ?dd ?od"
    using that by (rule load_row_main_near)
  show "\<exists>m. load_row_main parse_dob today cols r = Inr m \<and> delivery_delay m = None"
    if n: "?od = None \<or> ?dd = None"
  proof -
    from n have "\<not> far_apart ?dd ?od"
      by (rule far_apart_None2)
    then obtain m where m: "load_row_main parse_dob today cols r = Inr m"
      using load_row_main_near by blast
    note dl = load_row_main_delay [OF m]
    note od = load_row_main_orderDate [OF m]
    note dd = load_row_main_deliveryDate [OF m]
    from n have "orderDate m = None \<or> deliveryDate m = None"
      by (simp add: od dd)
    with delay_facts [OF dl od, THEN conjunct1] have "delivery_delay m = None"
      by (rule mp)
    with m show ?thesis by simp
  qed
  fix m
  assume m: "load_row_main parse_dob today cols r = Inr m"
  note d = delay_facts [OF load_row_main_delay [OF m] load_row_main_orderDate [OF m]]
  show "delivery_delay m = None" if "orderDate m = None \<or> deliveryDate m = None"
    using that d by blast
  show "delivery_delay m = Some (toordinal b - toordinal a)"
    if "orderDate m = Some a \<and> deliveryDate m = Some b" for a b
    using that d by blast
  show "\<bar>toordinal b - toordinal a\<bar> \<le> timedelta_max_days"
    if "orderDate m = Some a \<and> deliveryDate m = Some b" for a b
    using that d by blast
  show "delivery_delay m = Some (int n)"
    if "orderDate m = Some a \<and> deliveryDate m = Some ((next_day ^^ n) a)" for a n
    using that d by blast
qed

lemma sample02_delay:
  "(far_apart (to_datetime YMD (csv_deliveryDate r)) (to_datetime DMY (csv_orderDate r))
      \<longrightarrow> load_row_sample02 parse_dob today cols r = Inl OverflowError) \<and>
   (to_datetime DMY (csv_orderDate r) = None \<or> to_datetime YMD (csv_deliveryDate r) = None
      \<longrightarrow> (\<exists>m. load_row_sample02 parse_dob today cols r = Inr m \<and> delivery_delay m = None)) \<and>
   (\<not> far_apart (to_datetime YMD (csv_deliveryDate r)) (to_datetime DMY (csv_orderDate r))
      \<longrightarrow> (\<exists>m. load_row_sample02 parse_dob today cols r = Inr m)) \<and>
   (\<forall>m. load_row_sample02 parse_dob today cols r = Inr m \<longrightarrow>
      (orderDate m = None \<or> deliveryDate m = None \<longrightarrow> delivery_delay m = None) \<and>
      (\<forall>a b. orderDate m = Some a \<and> deliveryDate m = Some b \<longrightarrow>
         delivery_delay m = Some (toordinal b - toordinal a) \<and>
         \<bar>toordinal b - toordinal a\<bar> \<le> timedelta_max_days) \<and>
      (\<forall>a n. orderDate m = Some a \<and> deliveryDate m = Some ((next_day ^^ n) a) \<longrightarrow>
         delivery_delay m = Some (int n)))"
proof (intro conjI impI allI)
  let ?dd = "to_datetime YMD (csv_deliveryDate r)" and ?od = "to_datetime DMY (csv_orderDate r)"
  show "load_row_sample02 parse_dob today cols r = Inl OverflowError" if "far_apart ?dd ?od"
    using that by (rule load_row_sample02_far)
  show "\<exists>m. load_row_sample02 parse_dob today cols r = Inr m" if "\<not> far_apart ?dd ?od"
    using that by (rule load_row_sample02_near)
  show "\<exists>m. load_row_sample02 parse_dob today cols r = Inr m \<and> delivery_delay m = None"
    if n: "?od = None \<or> ?dd = None"
  proof -
    from n have "\<not> far_apart ?dd ?od"
      by (rule far_apart_None2)
    then obtain m where m: "load_row_sample02 parse_dob today cols r = Inr m"
      using load_row_sample02_near by blast
    note dl = load_row_sample02_delay [OF m]
    note od = load_row_sample02_orderDate [OF m]
    note dd = load_row_sample02_deliveryDate [OF m]
    from n have "orderDate m = None \<or> deliveryDate m = None"
      by (simp add: od dd)
    with delay_facts [OF dl od, THEN conjunct1] have "delivery_delay m = None"
      by (rule mp)
    with m show ?thesis by simp
  qed
  fix m
  assume m: "load_row_sample02 parse_dob today cols r = Inr m"
  note d = delay_facts [OF load_row_sample02_delay [OF m] load_row_sample02_orderDate [OF m]]
  show "delivery_delay m = None" if "orderDate m = None \<or> deliveryDate m = None"
    using that d by blast
  show "delivery_delay m = Some (toordinal b - toordinal a)"
    if "orderDate m = Some a \<and> deliveryDate m = Some b" for a b
    using that d by blast
  show "\<bar>toordinal b - toordinal a\<bar> \<le> timedelta_max_days"
    if "orderDate m = Some a \<and> deliveryDate m = Some b" for a b
    using that d by blast
  show "delivery_delay m = Some (int n)"
    if "orderDate m = Some a \<and> deliveryDate m = Some ((next_day ^^ n) a)" for a n
    using that d by blast
qed

lemma sample1_delay:
  "(far_apart (to_datetime DMY (csv_deliveryDate r)) (to_datetime DMY (csv_orderDate r))
      \<longrightarrow> load_row_sample1 today r = Inl OverflowError) \<and>
   (to_datetime DMY (csv_orderDate r) = None \<or> to_datetime DMY (csv_deliveryDate r) = None
      \<longrightarrow> (\<exists>m. load_row_sample1 today r = Inr m \<and>
                delivery_delay m = Some (Text ''Unknown''))) \<and>
   (\<not> far_apart (to_datetime DMY (csv_deliveryDate r)) (to_datetime DMY (csv_orderDate r))
      \<longrightarrow> (\<exists>m. load_row_sample1 today r = Inr m)) \<and>
   (\<forall>m. load_row_sample1 today r = Inr m \<longrightarrow>
      (orderDate m = None \<or> deliveryDate m = None \<longrightarrow>
         delivery_delay m = Some (Text ''Unknown'')) \<and>
      (\<forall>a b. orderDate m = Some a \<and> deliveryDate m = Some b \<longrightarrow>
         delivery_delay m = Some (Number (toordinal b - toordinal a)) \<and>
         \<bar>toordinal b - toordinal a\<bar> \<le> timedelta_max_days) \<and>
      (\<forall>a n. orderDate m = Some a \<and> deliveryDate m = Some ((next_day ^^ n) a) \<longrightarrow>
         delivery_delay m = Some (Number (int n))))"
proof (intro conjI impI allI)
  let ?dd = "to_datetime DMY (csv_deliveryDate r)" and ?od = "to_datetime DMY (csv_orderDate r)"
  have rows: "(orderDate m = None \<or> deliveryDate m = None \<longrightarrow>
         delivery_delay m = Some (Text ''Unknown'')) \<and>
      (\<forall>a b. orderDate m = Some a \<and> deliveryDate m = Some b \<longrightarrow>
         delivery_delay m = Some (Number (toordinal b - toordinal a)) \<and>
         \<bar>toordinal b - toordinal a\<bar> \<le> timedelta_max_days) \<and>
      (\<forall>a n. orderDate m = Some a \<and> deliveryDate m = Some ((next_day ^^ n) a) \<longrightarrow>
         delivery_delay m = Some (Number (int n)))"
    if m: "load_row_sample1 today r = Inr m" for m
  proof -
    from load_row_sample1_delay [OF m]
    obtain d where d: "days_between (deliveryDate m) (orderDate m) = Inr d"
      and dl: "delivery_delay m = Some (fillna (Text ''Unknown'') (map_option Number d))"
      by (elim exE conjE)
    note od = load_row_sample1_orderDate [OF m]
    note df = delay_facts [OF d od]
    show ?thesis
      using df by (auto simp add: dl fillna_def)
  qed
  show "load_row_sample1 today r = Inl OverflowError" if "far_apart ?dd ?od"
    using that by (rule load_row_sample1_far)
  show "\<exists>m. load_row_sample1 today r = Inr m" if "\<not> far_apart ?dd ?od"
    using that by (rule load_row_sample1_near)
  show "\<exists>m. load_row_sample1 today r = Inr m \<and> delivery_delay m = Some (Text ''Unknown'')"
    if n: "?od = None \<or> ?dd = None"
  proof -
    from n have "\<not> far_apart ?dd ?od"
      by (rule far_apart_None2)
    then obtain m where m: "load_row_sample1 today r = Inr m"
      using load_row_sample1_near by blast
    note od = load_row_sample1_orderDate [OF m]
    note dd = load_row_sample1_deliveryDate [OF m]
    from n have "orderDate m = None \<or> deliveryDate m = None"
      by (simp add: od dd)
    with rows [OF m, THEN conjunct1] have "delivery_delay m = Some (Text ''Unknown'')"
      by (rule mp)
    with m show ?thesis by simp
  qed
  fix m
  assume m: "load_row_sample1 today r = Inr m"
  show "delivery_delay m = Some (Text ''Unknown'')"
    if "orderDate m = None \<or> deliveryDate m = None"
    using that rows [OF m] by blast
  show "delivery_delay m = Some (Number (toordinal b - toordinal a))"
    if "orderDate m = Some a \<and> deliveryDate m = Some b" for a b
    using that rows [OF m] by blast
  show "\<bar>toordinal b - toordinal a\<bar> \<le> timedelta_max_days"
    if "orderDate m = Some a \<and> deliveryDate m = Some b" for a b
    using that rows [OF m] by blast
  show "delivery_delay m = Some (Number (int n))"
    if "orderDate m = Some a \<and> deliveryDate m = Some ((next_day ^^ n) a)" for a n
    using that rows [OF m] by blast
qed

text \<open>
  C3. In \<^verbatim>\<open>sample1.py\<close> the delay of a record without a delivery date is the text
  \<^verbatim>\<open>Unknown\<close>, not a missing value. In \<^verbatim>\<open>main.py\<close> a row ordered on 10 January 1724
  and delivered on 15 January 2024 has two dates that both parse, 109578 days apart; the
  subtraction raises \<^verbatim>\<open>OverflowError\<close> on it.
\<close>

theorem delivery_delay_sentinel_and_overflow:
  "map_sum id delivery_delay (load_row_sample1 today0 (sample_row\<lparr>csv_deliveryDate := None\<rparr>))
     = Inr (Some (Text ''Unknown'')) \<and>
   to_datetime DMY (csv_orderDate far_row) = Some \<lparr>year = 1724, month = 1, day = 10\<rparr> \<and>
   to_datetime YMD (csv_deliveryDate far_row) = Some \<lparr>year = 2024, month = 1, day = 15\<rparr> \<and>
   load_row_main (strptime DMY) today0 all_columns far_row = Inl OverflowError"
  by code_simp

text \<open>
  C3, amended. In \<^verbatim>\<open>main.py\<close> and \<^verbatim>\<open>Sample02.py\<close> the delay of a row is missing
  whenever its order date or its delivery date is missing, and nothing is raised for such a
  row; in \<^verbatim>\<open>sample1.py\<close> the delay is then the text \<^verbatim>\<open>Unknown\<close>. When both dates are
  present and at most 106751 days apart, the delay is, in all three files, the difference
  of the day numbers of the two dates, which is \<open>n\<close> when the delivery date is \<open>n\<close> days
  after the order date. When they are further apart, the subtraction raises
  \<^verbatim>\<open>OverflowError\<close>.
\<close>

theorem delivery_delay_null_or_days:
  "((far_apart (to_datetime YMD (csv_deliveryDate r)) (to_datetime DMY (csv_orderDate r))
       \<longrightarrow> load_row_main parse_dob today cols r = Inl OverflowError) \<and>
    (to_datetime DMY (csv_orderDate r) = None \<or> to_datetime YMD (csv_deliveryDate r) = None
       \<longrightarrow> (\<exists>m. load_row_main parse_dob today cols r = Inr m \<and> delivery_delay m = None)) \<and>
    (\<not> far_apart (to_datetime YMD (csv_deliveryDate r)) (to_datetime DMY (csv_orderDate r))
       \<longrightarrow> (\<exists>m. load_row_main parse_dob today cols r = Inr m)) \<and>
    (\<forall>m. load_row_main parse_dob today cols r = Inr m \<longrightarrow>
       (orderDate m = None \<or> deliveryDate m = None \<longrightarrow> delivery_delay m = None) \<and>
       (\<forall>a b. orderDate m = Some a \<and> deliveryDate m = Some b \<longrightarrow>
          delivery_delay m = Some (toordinal b - toordinal a) \<and>
          \<bar>toordinal b - toordinal a\<bar> \<le> timedelta_max_days) \<and>
       (\<forall>a n. orderDate m = Some a \<and> deliveryDate m = Some ((next_day ^^ n) a) \<longrightarrow>
          delivery_delay m = Some (int n)))) \<and>
   ((far_apart (to_datetime YMD (csv_deliveryDate r)) (to_datetime DMY (csv_orderDate r))
       \<longrightarrow> load_row_sample02 parse_dob today cols r = Inl OverflowError) \<and>
    (to_datetime DMY (csv_orderDate r) = None \<or> to_datetime YMD (csv_deliveryDate r) = None
       \<longrightarrow> (\<exists>m. load_row_sample02 parse_dob today cols r = Inr m \<and> delivery_delay m = None)) \<and>
    (\<not> far_apart (to_datetime YMD (csv_deliveryDate r)) (to_datetime DMY (csv_orderDate r))
       \<longrightarrow> (\<exists>m. load_row_sample02 parse_dob today cols r = Inr m)) \<and>
    (\<forall>m. load_row_sample02 parse_dob today cols r = Inr m \<longrightarrow>
       (orderDate m = None \<or> deliveryDate m = None \<longrightarrow> delivery_delay m = None) \<and>
       (\<forall>a b. orderDate m = Some a \<and> deliveryDate m = Some b \<longrightarrow>
          delivery_delay m = Some (toordinal b - toordinal a) \<and>
          \<bar>toordinal b - toordinal a\<bar> \<le> timedelta_max_days) \<and>
       (\<forall>a n. orderDate m = Some a \<and> deliveryDate m = Some ((next_day ^^ n) a) \<longrightarrow>
          delivery_delay m = Some (int n)))) \<and>
   ((far_apart (to_datetime DMY (csv_deliveryDate r)) (to_datetime DMY (csv_orderDate r))
       \<longrightarrow> load_row_sample1 today r = Inl OverflowError) \<and>
    (to_datetime DMY (csv_orderDate r) = None \<or> to_datetime DMY (csv_deliveryDate r) = None
       \<longrightarrow> (\<exists>m. load_row_sample1 today r = Inr m \<and>
                 delivery_delay m = Some (Text ''Unknown''))) \<and>
    (\<not> far_apart (to_datetime DMY (csv_deliveryDate r)) (to_datetime DMY (csv_orderDate r))
       \<longrightarrow> (\<exists>m. load_row_sample1 today r = Inr m)) \<and>
    (\<forall>m. load_row_sample1 today r = Inr m \<longrightarrow>
       (orderDate m = None \<or> deliveryDate m = None \<longrightarrow>
          delivery_delay m = Some (Text ''Unknown'')) \<and>
       (\<forall>a b. orderDate m = Some a \<and> deliveryDate m = Some b \<longrightarrow>
          delivery_delay m = Some (Number (toordinal b - toordinal a)) \<and>
          \<bar>toordinal b - toordinal a\<bar> \<le> timedelta_max_days) \<and>
       (\<forall>a n. orderDate m = Some a \<and> deliveryDate m = Some ((next_day ^^ n) a) \<longrightarrow>
          delivery_delay m = Some (Number (int n)))))"
  by (rule conjI, rule main_delay, rule conjI, rule sample02_delay, rule sample1_delay)

theorem delivery_delay_null_or_days_witness:
  "map_sum id delivery_delay (load_row_main (strptime DMY) today0 all_columns sample_row)
     = Inr (Some 5) \<and>
   map_sum id delivery_delay
       (load_row_main (strptime DMY) today0 all_columns (sample_row\<lparr>csv_deliveryDate := None\<rparr>))
     = Inr None \<and>
   load_row_main (strptime DMY) today0 all_columns far_row = Inl OverflowError \<and>
   map_sum id delivery_delay (load_row_sample1 today0 (sample_row\<lparr>csv_deliveryDate := None\<rparr>))
     = Inr (Some (Text ''Unknown''))"
proof -
  let ?none = "sample_row\<lparr>csv_deliveryDate := None\<rparr>"
  note t = delivery_delay_null_or_days [of sample_row "strptime DMY" today0 all_columns]
  note tn = delivery_delay_null_or_days [of ?none "strptime DMY" today0 all_columns]
  note tf = delivery_delay_null_or_days [of far_row "strptime DMY" today0 all_columns]
  note t_near = t [THEN conjunct1, THEN conjunct2, THEN conjunct2, THEN conjunct1]
  note t_rows = t [THEN conjunct1, THEN conjunct2, THEN conjunct2, THEN conjunct2]
  note tn_null = tn [THEN conjunct1, THEN conjunct2, THEN conjunct1]
  note tn_null1 = tn [THEN conjunct2, THEN conjunct2, THEN conjunct2, THEN conjunct1]
  note tf_far = tf [THEN conjunct1, THEN conjunct1]
  have o: "to_datetime DMY (csv_orderDate sample_row) = Some \<lparr>year = 2024, month = 1, day = 10\<rparr>"
    by code_simp
  have d: "to_datetime YMD (csv_deliveryDate sample_row) = Some \<lparr>year = 2024, month = 1, day = 15\<rparr>"
    by code_simp
  have n: "toordinal \<lparr>year = 2024, month = 1, day = 15\<rparr>
             - toordinal \<lparr>year = 2024, month = 1, day = 10\<rparr> = 5"
    by code_simp
  have near: "\<not> far_apart (to_datetime YMD (csv_deliveryDate sample_row))
                           (to_datetime DMY (csv_orderDate sample_row))"
    by code_simp
  have far: "far_apart (to_datetime YMD (csv_deliveryDate far_row))
                       (to_datetime DMY (csv_orderDate far_row))"
    by code_simp
  have dn: "to_datetime DMY (csv_orderDate ?none) = None \<or>
            to_datetime YMD (csv_deliveryDate ?none) = None"
    by (simp add: to_datetime_def)
  have dn1: "to_datetime DMY (csv_orderDate ?none) = None \<or>
             to_datetime DMY (csv_deliveryDate ?none) = None"
    by (simp add: to_datetime_def)
  from t_near [THEN mp, OF near]
  obtain m where m: "load_row_main (strptime DMY) today0 all_columns sample_row = Inr m" ..
  from load_row_main_orderDate [OF m] load_row_main_deliveryDate [OF m] o d
  have od: "orderDate m = Some \<lparr>year = 2024, month = 1, day = 10\<rparr> \<and>
            deliveryDate m = Some \<lparr>year = 2024, month = 1, day = 15\<rparr>"
    by simp
  note row = t_rows [THEN spec, THEN mp, OF m]
  from row [THEN conjunct2, THEN conjunct1, THEN spec, THEN spec, THEN mp, OF od]
  have "delivery_delay m = Some (toordinal \<lparr>year = 2024, month = 1, day = 15\<rparr>
                                  - toordinal \<lparr>year = 2024, month = 1, day = 10\<rparr>)"
    by (rule conjunct1)
  with n have "delivery_delay m = Some 5"
    by simp
  with m have a: "map_sum id delivery_delay
      (load_row_main (strptime DMY) today0 all_columns sample_row) = Inr (Some 5)"
    by simp
  from tn_null [THEN mp, OF dn]
  obtain m' where "load_row_main (strptime DMY) today0 all_columns ?none = Inr m' \<and>
      delivery_delay m' = None" ..
  then have b: "map_sum id delivery_delay
      (load_row_main (strptime DMY) today0 all_columns ?none) = Inr None"
    by simp
  from tf_far [THEN mp, OF far]
  have c: "load_row_main (strptime DMY) today0 all_columns far_row = Inl OverflowError" .
  from tn_null1 [THEN mp, OF dn1]
  obtain s where "load_row_sample1 today0 ?none = Inr s \<and>
      delivery_delay s = Some (Text ''Unknown'')" ..
  then have e: "map_sum id delivery_delay (load_row_sample1 today0 ?none)
      = Inr (Some (Text ''Unknown''))"
    by simp
  from a b c e show ?thesis by simp
qed

subsection \<open>Date formats of the loaders\<close>

lemma sample1_rejects_ymd:
  assumes "csv_deliveryDate r = Some s" and "strptime YMD s = Some d"
    and "load_row_sample1 today r = Inr m"
  shows "deliveryDate m = None"
  using assms
  by (simp add: load_row_sample1_deliveryDate to_datetime_def strptime_formats_disjoint)

text \<open>
  C7. \<^verbatim>\<open>main.py\<close> parses \<^verbatim>\<open>orderDate\<close> and \<^verbatim>\<open>creationDate\<close> as day-month-year and
  \<^verbatim>\<open>deliveryDate\<close> as year-month-day (\<open>load_row_main_fields\<close>). \<^verbatim>\<open>sample1.py\<close> parses
  \<^verbatim>\<open>deliveryDate\<close> as day-month-year first and stores the result, so its second parse
  finds timestamps and changes nothing: the delivery date \<^verbatim>\<open>2024-01-15\<close> of the sample
  row, which is in year-month-day form, becomes a missing date there, and the
  day-month-year text \<^verbatim>\<open>15-01-2024\<close> becomes 15 January 2024.
\<close>

theorem sample1_deliveryDate_format:
  "csv_deliveryDate sample_row = Some ''2024-01-15'' \<and>
   map_sum id deliveryDate (load_row_sample1 today0 sample_row) = Inr None \<and>
   map_sum id deliveryDate
       (load_row_sample1 today0 (sample_row\<lparr>csv_deliveryDate := Some ''15-01-2024''\<rparr>))
     = Inr (Some \<lparr>year = 2024, month = 1, day = 15\<rparr>) \<and>
   map_sum id deliveryDate (load_row_main (strptime DMY) today0 all_columns sample_row)
     = Inr (Some \<lparr>year = 2024, month = 1, day = 15\<rparr>)"
  by code_simp

subsection \<open>Failures of the loaders\<close>

lemma first_missing_None:
  "set needed \<subseteq> set cols \<Longrightarrow> first_missing cols needed = None"
  by (auto simp add: first_missing_def find_None_iff)

lemma first_missing_Some:
  "\<not> set needed \<subseteq> set cols \<Longrightarrow>
     \<exists>c \<in> set needed. c \<notin> set cols \<and> first_missing cols needed = Some c"
proof -
  assume "\<not> set needed \<subseteq> set cols"
  then have "first_missing cols needed \<noteq> None"
    by (auto simp add: first_missing_def find_None_iff)
  then obtain c where c: "first_missing cols needed = Some c"
    by auto
  then have "c \<in> set needed \<and> c \<notin> set cols"
    by (auto simp add: first_missing_def find_Some_iff)
  with c show ?thesis by blast
qed

lemma load_row_main_Inl: "load_row_main parse_dob today cols r = Inl e \<Longrightarrow> e = OverflowError"
  by (auto simp add: load_row_main_def Let_def split: sum.splits dest: days_between_Inl)

lemma load_row_sample02_Inl:
  "load_row_sample02 parse_dob today cols r = Inl e \<Longrightarrow> e = OverflowError"
  by (auto simp add: load_row_sample02_def Let_def split: sum.splits dest: days_between_Inl)

lemma load_row_sample1_Inl: "load_row_sample1 today r = Inl e \<Longrightarrow> e = OverflowError"
  by (auto simp add: load_row_sample1_def Let_def split: sum.splits dest: days_between_Inl)

lemma collect_map_overflow:
  assumes "\<exists>r \<in> set rs. f r = Inl OverflowError"
    and "\<And>r e. f r = Inl e \<Longrightarrow> e = OverflowError"
  shows "collect (map f rs) = Inl OverflowError"
proof (rule collect_some_Inl)
  show "\<exists>x \<in> set (map f rs). \<exists>e'. x = Inl e'"
    using assms(1) by auto
  show "\<forall>x \<in> set (map f rs). \<forall>e'. x = Inl e' \<longrightarrow> e' = OverflowError"
    using assms(2) by auto
qed

lemma collect_map_loads:
  assumes "\<forall>r \<in> set rs. \<exists>m. f r = Inr m"
  shows "\<exists>out. collect (map f rs) = Inr out \<and> map Inr out = map f rs"
proof (rule collect_all_Inr)
  show "\<forall>x \<in> set (map f rs). \<exists>v. x = Inr v"
    using assms by auto
qed

lemma load_data_read_error:
  "load_data_main parse_dob today (Inl e) = (None, [St_error e]) \<and>
   load_data_sample1 today (Inl e) = Inl e \<and>
   load_data_sample02 parse_dob today (Inl e) = Inl e"
  by (simp add: load_data_main_def load_data_try_def load_data_sample1_def load_data_sample02_def)

lemma load_data_missing_column:
  assumes "\<not> set date_columns \<subseteq> set (columns df)"
  shows "\<exists>c \<in> set date_columns. c \<notin> set (columns df) \<and>
           load_data_main parse_dob today (Inr df) = (None, [St_error (KeyError c)]) \<and>
           load_data_sample1 today (Inr df) = Inl (KeyError c) \<and>
           load_data_sample02 parse_dob today (Inr df) = Inl (KeyError c)"
proof -
  from first_missing_Some [OF assms]
  obtain c where c: "c \<in> set date_columns" "c \<notin> set (columns df)"
    "first_missing (columns df) date_columns = Some c"
    by blast
  then show ?thesis
    by (auto simp add: load_data_main_def load_data_try_def load_data_sample1_def
        load_data_sample02_def)
qed

lemma load_data_present:
  assumes "set date_columns \<subseteq> set (columns df)"
  shows
   "((\<exists>r \<in> set (rows df). far_apart (to_datetime YMD (csv_deliveryDate r))
                                     (to_datetime DMY (csv_orderDate r))) \<longrightarrow>
       load_data_main parse_dob today (Inr df) = (None, [St_error OverflowError]) \<and>
       load_data_sample02 parse_dob today (Inr df) = Inl OverflowError) \<and>
    ((\<forall>r \<in> set (rows df). \<not> far_apart (to_datetime YMD (csv_deliveryDate r))
                                       (to_datetime DMY (csv_orderDate r))) \<longrightarrow>
       (\<exists>out. load_data_main parse_dob today (Inr df) = (Some out, []) \<and>
              map Inr out = map (load_row_main parse_dob today (columns df)) (rows df)) \<and>
       (\<exists>out. load_data_sample02 parse_dob today (Inr df) = Inr out \<and>
              map Inr out = map (load_row_sample02 parse_dob today (columns df)) (rows df))) \<and>
    ((\<exists>r \<in> set (rows df). far_apart (to_datetime DMY (csv_deliveryDate r))
                                     (to_datetime DMY (csv_orderDate r))) \<longrightarrow>
       load_data_sample1 today (Inr df) = Inl OverflowError) \<and>
    ((\<forall>r \<in> set (rows df). \<not> far_apart (to_datetime DMY (csv_deliveryDate r))
                                       (to_datetime DMY (csv_orderDate r))) \<longrightarrow>
       (\<exists>out. load_data_sample1 today (Inr df) = Inr out \<and>
              map Inr out = map (load_row_sample1 today) (rows df)))"
proof (intro conjI impI)
  note fm = first_missing_None [OF assms]
  have main: "load_data_try parse_dob today (Inr df) =
                collect (map (load_row_main parse_dob today (columns df)) (rows df))"
    by (simp add: load_data_try_def fm)
  have s02: "load_data_sample02 parse_dob today (Inr df) =
               collect (map (load_row_sample02 parse_dob today (columns df)) (rows df))"
    by (simp add: load_data_sample02_def fm)
  have s1: "load_data_sample1 today (Inr df) = collect (map (load_row_sample1 today) (rows df))"
    by (simp add: load_data_sample1_def fm)
  {
    assume far: "\<exists>r \<in> set (rows df). far_apart (to_datetime YMD (csv_deliveryDate r))
                                               (to_datetime DMY (csv_orderDate r))"
    have "collect (map (load_row_main parse_dob today (columns df)) (rows df)) = Inl OverflowError"
    proof (rule collect_map_overflow)
      show "\<exists>r \<in> set (rows df). load_row_main parse_dob today (columns df) r = Inl OverflowError"
        using far load_row_main_far by blast
      show "e = OverflowError" if "load_row_main parse_dob today (columns df) r = Inl e" for r e
        using that by (rule load_row_main_Inl)
    qed
    then show "load_data_main parse_dob today (Inr df) = (None, [St_error OverflowError])"
      by (simp add: load_data_main_def main)
    have "collect (map (load_row_sample02 parse_dob today (columns df)) (rows df))
            = Inl OverflowError"
    proof (rule collect_map_overflow)
      show "\<exists>r \<in> set (rows df).
              load_row_sample02 parse_dob today (columns df) r = Inl OverflowError"
        using far load_row_sample02_far by blast
      show "e = OverflowError" if "load_row_sample02 parse_dob today (columns df) r = Inl e"
        for r e
        using that by (rule load_row_sample02_Inl)
    qed
    then show "load_data_sample02 parse_dob today (Inr df) = Inl OverflowError"
      by (simp add: s02)
  }
  {
    assume near: "\<forall>r \<in> set (rows df). \<not> far_apart (to_datetime YMD (csv_deliveryDate r))
                                                  (to_datetime DMY (csv_orderDate r))"
    have "\<exists>out. collect (map (load_row_main parse_dob today (columns df)) (rows df)) = Inr out \<and>
            map Inr out = map (load_row_main parse_dob today (columns df)) (rows df)"
      using near by (intro collect_map_loads) (blast intro: load_row_main_near)
    then show "\<exists>out. load_data_main parse_dob today (Inr df) = (Some out, []) \<and>
              map Inr out = map (load_row_main parse_dob today (columns df)) (rows df)"
      by (auto simp add: load_data_main_def main)
    have "\<exists>out. collect (map (load_row_sample02 parse_dob today (columns df)) (rows df))
                  = Inr out \<and>
            map Inr out = map (load_row_sample02 parse_dob today (columns df)) (rows df)"
      using near by (intro collect_map_loads) (blast intro: load_row_sample02_near)
    then show "\<exists>out. load_data_sample02 parse_dob today (Inr df) = Inr out \<and>
              map Inr out = map (load_row_sample02 parse_dob today (columns df)) (rows df)"
      by (simp add: s02)
  }
  {
    assume far: "\<exists>r \<in> set (rows df). far_apart (to_datetime DMY (csv_deliveryDate r))
                                               (to_datetime DMY (csv_orderDate r))"
    have "collect (map (load_row_sample1 today) (rows df)) = Inl OverflowError"
    proof (rule collect_map_overflow)
      show "\<exists>r \<in> set (rows df). load_row_sample1 today r = Inl OverflowError"
        using far load_row_sample1_far by blast
      show "e = OverflowError" if "load_row_sample1 today r = Inl e" for r e
        using that by (rule load_row_sample1_Inl)
    qed
    then show "load_data_sample1 today (Inr df) = Inl OverflowError"
      by (simp add: s1)
  }
  {
    assume near: "\<forall>r \<in> set (rows df). \<not> far_apart (to_datetime DMY (csv_deliveryDate r))
                                                  (to_datetime DMY (csv_orderDate r))"
    have "\<exists>out. collect (map (load_row_sample1 today) (rows df)) = Inr out \<and>
            map Inr out = map (load_row_sample1 today) (rows df)"
      using near by (intro collect_map_loads) (blast intro: load_row_sample1_near)
    then show "\<exists>out. load_data_sample1 today (Inr df) = Inr out \<and>
              map Inr out = map (load_row_sample1 today) (rows df)"
      by (simp add: s1)
  }
qed

lemma row_cells_main:
  "\<forall>m. load_row_main parse_dob today cols r = Inr m \<longrightarrow>
      (csv_orderDate r = Some s \<and> strptime DMY s = None \<longrightarrow> orderDate m = None) \<and>
      (csv_creationDate r = Some s \<and> strptime DMY s = None \<longrightarrow> creationDate m = None) \<and>
      (csv_deliveryDate r = Some s \<and> strptime YMD s = None \<longrightarrow> deliveryDate m = None) \<and>
      (csv_dateOfBirth r = Some s \<and> parse_dob s = None \<longrightarrow> dateOfBirth m = None) \<and>
      itemID m = csv_itemID r \<and> manufacturerID m = csv_manufacturerID r \<and>
      price m = csv_price r \<and> returnShipment m = csv_returnShipment r"
  by (auto simp add: to_datetime_def dest!: load_row_main_fields)

lemma row_cells_sample02:
  "\<forall>m. load_row_sample02 parse_dob today cols r = Inr m \<longrightarrow>
      (csv_orderDate r = Some s \<and> strptime DMY s = None \<longrightarrow> orderDate m = None) \<and>
      (csv_creationDate r = Some s \<and> strptime DMY s = None \<longrightarrow> creationDate m = None) \<and>
      (csv_deliveryDate r = Some s \<and> strptime YMD s = None \<longrightarrow> deliveryDate m = None) \<and>
      (csv_dateOfBirth r = Some s \<and> parse_dob s = None \<longrightarrow> dateOfBirth m = None) \<and>
      itemID m = csv_itemID r \<and> manufacturerID m = csv_manufacturerID r \<and>
      price m = csv_price r \<and> returnShipment m = csv_returnShipment r"
  by (auto simp add: to_datetime_def dest!: load_row_sample02_fields)

lemma row_cells_sample1:
  "\<forall>m. load_row_sample1 today r = Inr m \<longrightarrow>
      (csv_orderDate r = Some s \<and> strptime DMY s = None \<longrightarrow> orderDate m = None) \<and>
      (csv_creationDate r = Some s \<and> strptime DMY s = None \<longrightarrow> creationDate m = None) \<and>
      (csv_deliveryDate r = Some s \<and> strptime DMY s = None \<longrightarrow> deliveryDate m = None) \<and>
      (csv_dateOfBirth r = Some s \<and> strptime DMY s = None \<longrightarrow> dateOfBirth m = None) \<and>
      itemID m = csv_itemID r \<and> manufacturerID m = csv_manufacturerID r \<and>
      price m = csv_price r \<and> returnShipment m = csv_returnShipment r"
  by (auto simp add: to_datetime_def dest!: load_row_sample1_fields)

text \<open>
  C6. No loader checks the columns of the file beyond using the four date columns, and the
  code has no error type of its own: a table without the \<^verbatim>\<open>price\<close> column loads in
  \<^verbatim>\<open>main.py\<close> and in \<^verbatim>\<open>sample1.py\<close>; a missing file makes \<^verbatim>\<open>load_data\<close> of
  \<^verbatim>\<open>main.py\<close> return \<^verbatim>\<open>None\<close> after showing the error, and makes \<^verbatim>\<open>load_data\<close> of
  \<^verbatim>\<open>sample1.py\<close> raise the \<^verbatim>\<open>FileNotFoundError\<close> of the read. A \<^verbatim>\<open>price\<close> cell that
  is not a number stays the text it is and does not become a missing value. A row with two
  well-formed dates more than 106751 days apart aborts the load.
\<close>

theorem load_data_without_price:
  "''price'' \<notin> set (remove1 ''price'' all_columns) \<and>
   map_option length
       (fst (load_data_main (strptime DMY) today0
          (Inr \<lparr>columns = remove1 ''price'' all_columns,
                rows = [sample_row\<lparr>csv_price := None\<rparr>]\<rparr>))) = Some 1 \<and>
   map_sum id length
       (load_data_sample1 today0
          (Inr \<lparr>columns = remove1 ''price'' all_columns,
                rows = [sample_row\<lparr>csv_price := None\<rparr>]\<rparr>)) = Inr 1 \<and>
   load_data_main (strptime DMY) today0 (Inl FileNotFoundError :: py_error + rat csv)
     = (None, [St_error FileNotFoundError]) \<and>
   load_data_sample1 today0 (Inl FileNotFoundError :: py_error + rat csv)
     = Inl FileNotFoundError \<and>
   map_option (map price)
       (fst (load_data_main (strptime DMY) today0
          (Inr \<lparr>columns = all_columns, rows = [text_price_row]\<rparr>))) = Some [Some ''abc''] \<and>
   load_data_main (strptime DMY) today0 (Inr \<lparr>columns = all_columns, rows = [sample_row, far_row]\<rparr>)
     = (None, [St_error OverflowError])"
  by code_simp

text \<open>
  C6, amended. A load fails when the file cannot be read, when it lacks one of the four date
  columns \<^verbatim>\<open>orderDate\<close>, \<^verbatim>\<open>deliveryDate\<close>, \<^verbatim>\<open>dateOfBirth\<close>, \<^verbatim>\<open>creationDate\<close>, or
  when the order date and the delivery date of some row are more than 106751 days apart:
  \<^verbatim>\<open>main.py\<close> then shows the error and returns no table, \<^verbatim>\<open>sample1.py\<close> and
  \<^verbatim>\<open>Sample02.py\<close> raise the error of the read, the \<^verbatim>\<open>KeyError\<close> of the column or the
  \<^verbatim>\<open>OverflowError\<close> of the subtraction. Otherwise the load returns one record for each
  row, whatever the cells hold. In a record, a date cell that its parse does not accept is a
  missing date, and the cells of \<^verbatim>\<open>itemID\<close>, \<^verbatim>\<open>manufacturerID\<close>, \<^verbatim>\<open>price\<close> and
  \<^verbatim>\<open>returnShipment\<close> are as they were read.
\<close>

theorem load_data_failure_modes:
  "(load_data_main parse_dob today (Inl e) = (None, [St_error e]) \<and>
    load_data_sample1 today (Inl e) = Inl e \<and>
    load_data_sample02 parse_dob today (Inl e) = Inl e) \<and>
   (\<not> set date_columns \<subseteq> set (columns df) \<longrightarrow>
      (\<exists>c \<in> set date_columns. c \<notin> set (columns df) \<and>
         load_data_main parse_dob today (Inr df) = (None, [St_error (KeyError c)]) \<and>
         load_data_sample1 today (Inr df) = Inl (KeyError c) \<and>
         load_data_sample02 parse_dob today (Inr df) = Inl (KeyError c))) \<and>
   (set date_columns \<subseteq> set (columns df) \<longrightarrow>
      ((\<exists>r \<in> set (rows df). far_apart (to_datetime YMD (csv_deliveryDate r))
                                       (to_datetime DMY (csv_orderDate r))) \<longrightarrow>
         load_data_main parse_dob today (Inr df) = (None, [St_error OverflowError]) \<and>
         load_data_sample02 parse_dob today (Inr df) = Inl OverflowError) \<and>
      ((\<forall>r \<in> set (rows df). \<not> far_apart (to_datetime YMD (csv_deliveryDate r))
                                         (to_datetime DMY (csv_orderDate r))) \<longrightarrow>
         (\<exists>out. load_data_main parse_dob today (Inr df) = (Some out, []) \<and>
                map Inr out = map (load_row_main parse_dob today (columns df)) (rows df)) \<and>
         (\<exists>out. load_data_sample02 parse_dob today (Inr df) = Inr out \<and>
                map Inr out = map (load_row_sample02 parse_dob today (columns df)) (rows df))) \<and>
      ((\<exists>r \<in> set (rows df). far_apart (to_datetime DMY (csv_deliveryDate r))
                                       (to_datetime DMY (csv_orderDate r))) \<longrightarrow>
         load_data_sample1 today (Inr df) = Inl OverflowError) \<and>
      ((\<forall>r \<in> set (rows df). \<not> far_apart (to_datetime DMY (csv_deliveryDate r))
                                         (to_datetime DMY (csv_orderDate r))) \<longrightarrow>
         (\<exists>out. load_data_sample1 today (Inr df) = Inr out \<and>
                map Inr out = map (load_row_sample1 today) (rows df)))) \<and>
   (\<forall>m. load_row_main parse_dob today cols r = Inr m \<longrightarrow>
      (csv_orderDate r = Some s \<and> strptime DMY s = None \<longrightarrow> orderDate m = None) \<and>
      (csv_creationDate r = Some s \<and> strptime DMY s = None \<longrightarrow> creationDate m = None) \<and>
      (csv_deliveryDate r = Some s \<and> strptime YMD s = None \<longrightarrow> deliveryDate m = None) \<and>
      (csv_dateOfBirth r = Some s \<and> parse_dob s = None \<longrightarrow> dateOfBirth m = None) \<and>
      itemID m = csv_itemID r \<and> manufacturerID m = csv_manufacturerID r \<and>
      price m = csv_price r \<and> returnShipment m = csv_returnShipment r) \<and>
   (\<forall>m. load_row_sample02 parse_dob today cols r = Inr m \<longrightarrow>
      (csv_orderDate r = Some s \<and> strptime DMY s = None \<longrightarrow> orderDate m = None) \<and>
      (csv_creationDate r = Some s \<and> strptime DMY s = None \<longrightarrow> creationDate m = None) \<and>
      (csv_deliveryDate r = Some s \<and> strptime YMD s = None \<longrightarrow> deliveryDate m = None) \<and>
      (csv_dateOfBirth r = Some s \<and> parse_dob s = None \<longrightarrow> dateOfBirth m = None) \<and>
      itemID m = csv_itemID r \<and> manufacturerID m = csv_manufacturerID r \<and>
      price m = csv_price r \<and> returnShipment m = csv_returnShipment r) \<and>
   (\<forall>m. load_row_sample1 today r = Inr m \<longrightarrow>
      (csv_orderDate r = Some s \<and> strptime DMY s = None \<longrightarrow> orderDate m = None) \<and>
      (csv_creationDate r = Some s \<and> strptime DMY s = None \<longrightarrow> creationDate m = None) \<and>
      (csv_deliveryDate r = Some s \<and> strptime DMY s = None \<longrightarrow> deliveryDate m = None) \<and>
      (csv_dateOfBirth r = Some s \<and> strptime DMY s = None \<longrightarrow> dateOfBirth m = None) \<and>
      itemID m = csv_itemID r \<and> manufacturerID m = csv_manufacturerID r \<and>
      price m = csv_price r \<and> returnShipment m = csv_returnShipment r)"
  by (rule conjI, rule load_data_read_error, rule conjI, rule impI,
      erule load_data_missing_column, rule conjI, rule impI, erule load_data_present,
      rule conjI, rule row_cells_main, rule conjI, rule row_cells_sample02,
      rule row_cells_sample1)

theorem load_data_failure_modes_witness:
  "load_data_main (strptime DMY) today0 (Inl PermissionError :: py_error + rat csv)
     = (None, [St_error PermissionError]) \<and>
   load_data_main (strptime DMY) today0
       (Inr \<lparr>columns = remove1 ''deliveryDate'' all_columns, rows = [sample_row]\<rparr>)
     = (None, [St_error (KeyError ''deliveryDate'')]) \<and>
   load_data_main (strptime DMY) today0 (Inr \<lparr>columns = all_columns, rows = [sample_row, far_row]\<rparr>)
     = (None, [St_error OverflowError]) \<and>
   map_option (map Inr)
       (fst (load_data_main (strptime DMY) today0
          (Inr \<lparr>columns = all_columns, rows = [sample_row]\<rparr>)))
     = Some [load_row_main (strptime DMY) today0 all_columns sample_row] \<and>
   csv_creationDate sample_row = Some ''?'' \<and>
   map_sum id creationDate (load_row_main (strptime DMY) today0 all_columns sample_row)
     = Inr None"
proof -
  let ?bad = "\<lparr>columns = remove1 ''deliveryDate'' all_columns, rows = [sample_row]\<rparr>"
  let ?good = "\<lparr>columns = all_columns, rows = [sample_row]\<rparr>"
  let ?far = "\<lparr>columns = all_columns, rows = [sample_row, far_row]\<rparr>"
  note t1 = load_data_failure_modes
      [of "strptime DMY" today0 PermissionError ?bad all_columns sample_row "''?''"]
  note t2 = load_data_failure_modes
      [of "strptime DMY" today0 PermissionError ?good all_columns sample_row "''?''"]
  note t3 = load_data_failure_modes
      [of "strptime DMY" today0 PermissionError ?far all_columns sample_row "''?''"]
  have bad: "\<not> set date_columns \<subseteq> set (columns ?bad)"
    by (simp add: date_columns_def all_columns_def)
  have good: "set date_columns \<subseteq> set (columns ?good)"
    by (simp add: date_columns_def all_columns_def)
  have far_cols: "set date_columns \<subseteq> set (columns ?far)"
    by (simp add: date_columns_def all_columns_def)
  have only: "\<And>c. c \<in> set date_columns \<Longrightarrow> c \<notin> set (columns ?bad) \<Longrightarrow> c = ''deliveryDate''"
    by (simp add: date_columns_def all_columns_def)
  have near: "\<forall>r \<in> set (rows ?good). \<not> far_apart (to_datetime YMD (csv_deliveryDate r))
                                                (to_datetime DMY (csv_orderDate r))"
    by code_simp
  have far: "\<exists>r \<in> set (rows ?far). far_apart (to_datetime YMD (csv_deliveryDate r))
                                             (to_datetime DMY (csv_orderDate r))"
    by code_simp
  have cell: "csv_creationDate sample_row = Some ''?'' \<and> strptime DMY ''?'' = None"
    by code_simp
  have a: "load_data_main (strptime DMY) today0 (Inl PermissionError :: py_error + rat csv)
             = (None, [St_error PermissionError])"
    by (rule t1 [THEN conjunct1, THEN conjunct1])
  from t1 [THEN conjunct2, THEN conjunct1, THEN mp, OF bad]
  obtain c where c: "c \<in> set date_columns" and "c \<notin> set (columns ?bad) \<and>
      load_data_main (strptime DMY) today0 (Inr ?bad) = (None, [St_error (KeyError c)]) \<and>
      load_data_sample1 today0 (Inr ?bad) = Inl (KeyError c) \<and>
      load_data_sample02 (strptime DMY) today0 (Inr ?bad) = Inl (KeyError c)" ..
  then have cb: "c \<notin> set (columns ?bad)"
    and lb: "load_data_main (strptime DMY) today0 (Inr ?bad) = (None, [St_error (KeyError c)])"
    by simp_all
  from only [OF c cb] lb
  have b: "load_data_main (strptime DMY) today0 (Inr ?bad)
             = (None, [St_error (KeyError ''deliveryDate'')])"
    by simp
  note present = t3 [THEN conjunct2, THEN conjunct2, THEN conjunct1, THEN mp, OF far_cols]
  from present [THEN conjunct1, THEN mp, OF far]
  have f: "load_data_main (strptime DMY) today0 (Inr ?far) = (None, [St_error OverflowError])"
    by (rule conjunct1)
  note present2 = t2 [THEN conjunct2, THEN conjunct2, THEN conjunct1, THEN mp, OF good]
  from present2 [THEN conjunct2, THEN conjunct1, THEN mp, OF near, THEN conjunct1]
  obtain out where "load_data_main (strptime DMY) today0 (Inr ?good) = (Some out, []) \<and>
      map Inr out = map (load_row_main (strptime DMY) today0 (columns ?good)) (rows ?good)" ..
  then have g: "map_option (map Inr) (fst (load_data_main (strptime DMY) today0 (Inr ?good)))
                  = Some [load_row_main (strptime DMY) today0 all_columns sample_row]"
    by simp
  then obtain m where m: "load_row_main (strptime DMY) today0 all_columns sample_row = Inr m"
    by (cases "load_row_main (strptime DMY) today0 all_columns sample_row") auto
  note cells = t2 [THEN conjunct2, THEN conjunct2, THEN conjunct2, THEN conjunct1, THEN spec,
      THEN mp, OF m]
  from cells [THEN conjunct2, THEN conjunct1, THEN mp, OF cell]
  have "creationDate m = None" .
  with m have h: "map_sum id creationDate
      (load_row_main (strptime DMY) today0 all_columns sample_row) = Inr None"
    by simp
  from a b f g h cell show ?thesis
    by simp
qed

end
